theory Spec2Isabelle
  imports Complex_Main
begin

section \<open>JavaScript values and the objects of the default template\<close>

text \<open>
  The module under study is the background loader of \<^verbatim>\<open>src/screens/signin/index.tsx\<close>:
  \<^verbatim>\<open>DEFAULT_CLIENT_CONFIG\<close>, \<^verbatim>\<open>generateRandomPasscode\<close>, \<^verbatim>\<open>generatePasscodeAndConfig\<close>,
  \<^verbatim>\<open>loadWorkflow\<close>, \<^verbatim>\<open>getFallbackWorkflow\<close> and \<^verbatim>\<open>loadConfig\<close>.

  The five objects nested directly in \<^verbatim>\<open>DEFAULT_CLIENT_CONFIG\<close> live as long as the module
  does and are reached through references, so they are kept in a store: \<open>tref\<close> is the
  address of such an object and a \<open>heap\<close> gives the own properties of each. Every other
  object (a parsed JSON document, an object literal held in a local variable) has a single
  owner and is written as a tree, \<open>Obj\<close> with its own properties in insertion order. An
  array is an object whose property names are its indices; the module never reads a length.
  \<open>Native\<close> stands for a built-in function or object of the runtime, by name; the
  module meets one only as a member inherited from \<^verbatim>\<open>Object.prototype\<close>.
  Numbers only pass through the module and are tested for truthiness.
  Values are plain data: reading a property runs no code of the caller's, and there are no
  symbols and no big integers.
\<close>

datatype tref = SECRETS | AGENTS | IDENTIFIERS | USERS | CREDENTIALS

datatype jsval =
    Undefined
  | Null
  | Bool bool
  | Num int
  | Str string
  | Obj "(string \<times> jsval) list"
  | Ref tref
  | Native string

type_synonym props = "(string \<times> jsval) list"
type_synonym heap = "tref \<Rightarrow> props"

text \<open>The truthiness test of \<^verbatim>\<open>if (v)\<close>, \<^verbatim>\<open>v && w\<close> and \<^verbatim>\<open>v ? a : b\<close>.\<close>

fun truthy :: "jsval \<Rightarrow> bool" where
  "truthy Undefined = False"
| "truthy Null = False"
| "truthy (Bool b) = b"
| "truthy (Num n) = (n \<noteq> 0)"
| "truthy (Str s) = (s \<noteq> [])"
| "truthy (Obj ps) = True"
| "truthy (Ref r) = True"
| "truthy (Native n) = True"

fun has_key :: "props \<Rightarrow> string \<Rightarrow> bool" where
  "has_key [] k = False"
| "has_key ((k', v) # ps) k = (k' = k \<or> has_key ps k)"

fun lookup :: "props \<Rightarrow> string \<Rightarrow> jsval" where
  "lookup [] k = Undefined"
| "lookup ((k', v) # ps) k = (if k' = k then v else lookup ps k)"

text \<open>Defining an own property: an existing name keeps its place, a new one goes last.\<close>

fun put :: "props \<Rightarrow> string \<Rightarrow> jsval \<Rightarrow> props" where
  "put [] k v = [(k, v)]"
| "put ((k', v') # ps) k v = (if k' = k then (k, v) # ps else (k', v') # put ps k v)"

text \<open>
  An object literal \<^verbatim>\<open>{...a, k: v, ...b}\<close> defines its properties from left to right;
  \<open>literal [] kvs\<close> is the object that the sequence \<open>kvs\<close> of definitions builds.
\<close>

fun literal :: "props \<Rightarrow> props \<Rightarrow> props" where
  "literal acc [] = acc"
| "literal acc ((k, v) # kvs) = literal (put acc k v) kvs"

definition digits :: string where
  "digits = ''0123456789''"

fun dec :: "nat \<Rightarrow> string" where
  "dec n = (if n < 10 then [digits ! n] else dec (n div 10) @ [digits ! (n mod 10)])"

declare dec.simps [simp del]

text \<open>The members every plain object inherits from \<^verbatim>\<open>Object.prototype\<close>.\<close>

definition Object_prototype_keys :: "string list" where
  "Object_prototype_keys =
     [''constructor'', ''__defineGetter__'', ''__defineSetter__'', ''hasOwnProperty'',
      ''__lookupGetter__'', ''__lookupSetter__'', ''isPrototypeOf'', ''propertyIsEnumerable'',
      ''toString'', ''valueOf'', ''__proto__'', ''toLocaleString'']"

text \<open>Reading \<^verbatim>\<open>o[k]\<close> on a plain object: the own property, else the inherited member.\<close>

definition member :: "props \<Rightarrow> string \<Rightarrow> jsval" where
  "member ps k =
     (if has_key ps k then lookup ps k
      else if k \<in> set Object_prototype_keys then Native (''Object.prototype.'' @ k)
      else Undefined)"

text \<open>
  The own enumerable properties that a spread \<^verbatim>\<open>{...v}\<close> copies. The copy is shallow: a
  property that holds a reference is copied as that reference.
\<close>

fun spread :: "heap \<Rightarrow> jsval \<Rightarrow> props" where
  "spread h (Obj ps) = ps"
| "spread h (Ref r) = h r"
| "spread h (Str s) = zip (map dec [0..<length s]) (map (\<lambda>c. Str [c]) s)"
| "spread h v = []"

section \<open>Computations: a store and exceptions\<close>

text \<open>
  A computation runs on the store and either returns a value or throws one. Any value can
  be thrown; \<open>Error m\<close> is an \<^verbatim>\<open>Error\<close> instance with message \<open>m\<close>. Diagnostic output
  (\<^verbatim>\<open>console.log\<close>, \<^verbatim>\<open>console.warn\<close>, \<^verbatim>\<open>console.error\<close>) is not part of the model, but the
  property reads and the string conversions in the arguments of those calls are, where
  the value is not a string or number already, since they can throw.
\<close>

type_synonym 'a comp = "heap \<Rightarrow> (jsval + 'a) \<times> heap"

definition returns :: "'a \<Rightarrow> 'a comp" where
  "returns x h = (Inr x, h)"

definition throws :: "jsval \<Rightarrow> 'a comp" where
  "throws e h = (Inl e, h)"

definition and_then :: "'a comp \<Rightarrow> ('a \<Rightarrow> 'b comp) \<Rightarrow> 'b comp" where
  "and_then m f h = (case m h of (Inl e, h') \<Rightarrow> (Inl e, h') | (Inr x, h') \<Rightarrow> f x h')"

definition try_catch :: "'a comp \<Rightarrow> (jsval \<Rightarrow> 'a comp) \<Rightarrow> 'a comp" where
  "try_catch m handler h = (case m h of (Inl e, h') \<Rightarrow> handler e h' | (Inr x, h') \<Rightarrow> (Inr x, h'))"

definition Error :: "string \<Rightarrow> jsval" where
  "Error m = Obj [(''message'', Str m)]"

text \<open>The \<^verbatim>\<open>TypeError\<close> of the engine; its message text differs between engines.\<close>

definition TypeError :: jsval where
  "TypeError = Error ''TypeError''"

text \<open>
  \<^verbatim>\<open>v[k]\<close> and \<^verbatim>\<open>v.k\<close>. Reading a property of \<^verbatim>\<open>undefined\<close> or \<^verbatim>\<open>null\<close> throws. A
  boolean, number, string or built-in has none of the properties this module asks for
  (the names it reads are fixed identifiers and \<^verbatim>\<open>workflow_<name>\<close>, never an index,
  \<^verbatim>\<open>length\<close> or a method name).
\<close>

fun get_prop :: "jsval \<Rightarrow> string \<Rightarrow> jsval comp" where
  "get_prop Undefined k = throws TypeError"
| "get_prop Null k = throws TypeError"
| "get_prop (Obj ps) k = returns (member ps k)"
| "get_prop (Ref r) k = (\<lambda>h. (Inr (member (h r) k), h))"
| "get_prop v k = returns Undefined"

text \<open>
  The string conversion that a template literal applies to a value, \<^verbatim>\<open>`${v}`\<close>. The text only
  goes to the console, so the model keeps whether the conversion throws. A primitive value
  converts. An object is converted by its \<^verbatim>\<open>toString\<close>, then by its \<^verbatim>\<open>valueOf\<close>: an own
  property of those names that is data cannot be called, and the inherited \<^verbatim>\<open>valueOf\<close> returns
  the object itself, so an object with an own \<^verbatim>\<open>toString\<close> that is not a function and no own
  \<^verbatim>\<open>valueOf\<close> that is one makes the conversion throw a \<^verbatim>\<open>TypeError\<close>. Two things are not
  followed, and the conversion is then taken to succeed: a built-in stored by hand under one
  of the two names (what it returns when called), and the elements of an array that has no
  own \<^verbatim>\<open>toString\<close> (the inherited one joins their conversions).
\<close>

fun callable :: "jsval \<Rightarrow> bool" where
  "callable (Native n) = (n \<noteq> ''Object.prototype.__proto__'')"
| "callable v = False"

definition unprintable :: "props \<Rightarrow> bool" where
  "unprintable ps =
     (has_key ps ''toString'' \<and> \<not> callable (lookup ps ''toString'') \<and>
      \<not> (has_key ps ''valueOf'' \<and> callable (lookup ps ''valueOf'')))"

fun to_text :: "jsval \<Rightarrow> unit comp" where
  "to_text (Obj ps) = (if unprintable ps then throws TypeError else returns ())"
| "to_text (Ref r) = (\<lambda>h. (if unprintable (h r) then Inl TypeError else Inr (), h))"
| "to_text v = returns ()"

text \<open>\<^verbatim>\<open>`${x.message}`\<close>, the argument of the warnings and errors that the handlers log.\<close>

definition message_text :: "jsval \<Rightarrow> unit comp" where
  "message_text x = and_then (get_prop x ''message'') to_text"

text \<open>
  The own properties after the assignment \<^verbatim>\<open>o[k] = v\<close> on an ordinary object. Assigning to
  \<^verbatim>\<open>__proto__\<close> when the object has no own property of that name runs the inherited setter,
  which replaces the prototype and defines nothing.
\<close>

definition assigned :: "props \<Rightarrow> string \<Rightarrow> jsval \<Rightarrow> props" where
  "assigned ps k v = (if k = ''__proto__'' \<and> \<not> has_key ps k then ps else put ps k v)"

text \<open>
  \<^verbatim>\<open>x[k] = v\<close> for a local variable \<open>x\<close>; the result is the value of \<open>x\<close> afterwards. An
  object in the store is updated there. The module's code is strict (it is an ES module),
  so assigning to a property of a primitive value throws.
\<close>

fun assign :: "jsval \<Rightarrow> string \<Rightarrow> jsval \<Rightarrow> jsval comp" where
  "assign (Obj ps) k v = returns (Obj (assigned ps k v))"
| "assign (Ref r) k v = (\<lambda>h. (Inr (Ref r), h(r := assigned (h r) k v)))"
| "assign x k v = throws TypeError"

text \<open>
  \<^verbatim>\<open>x.a[k] = v\<close> for a local variable \<open>x\<close>: the object \<^verbatim>\<open>x.a\<close> is read, then assigned to.
  When \<^verbatim>\<open>x.a\<close> is a reference the store changes and \<open>x\<close> does not; when it is an object
  that only \<open>x\<close> holds, \<open>write_back\<close> shows the change in \<open>x\<close>.
\<close>

definition write_back :: "jsval \<Rightarrow> string \<Rightarrow> jsval \<Rightarrow> jsval comp" where
  "write_back x a target =
     (case target of
        Ref r \<Rightarrow> returns x
      | _ \<Rightarrow> (case x of
                Obj ps \<Rightarrow> returns (Obj (put ps a target))
              | Ref r \<Rightarrow> (\<lambda>h. (Inr x, h(r := put (h r) a target)))
              | _ \<Rightarrow> returns x))"

definition assign_in :: "jsval \<Rightarrow> string \<Rightarrow> string \<Rightarrow> jsval \<Rightarrow> jsval comp" where
  "assign_in x a k v =
     and_then (get_prop x a) (\<lambda>target.
     and_then (assign target k v) (\<lambda>target'.
       write_back x a target'))"

text \<open>The properties a spread \<^verbatim>\<open>{...v}\<close> copies, read from the store as it is now.\<close>

definition own_props :: "jsval \<Rightarrow> props comp" where
  "own_props v h = (Inr (spread h v), h)"

section \<open>The default template\<close>

text \<open>
  \<^verbatim>\<open>DEFAULT_CLIENT_CONFIG\<close> (lines 164-187): a constant binding to an object whose five
  properties refer to the nested objects. \<open>initial_heap\<close> is their content when the module
  is loaded.
\<close>

definition DEFAULT_CLIENT_CONFIG :: jsval where
  "DEFAULT_CLIENT_CONFIG =
     Obj [(''secrets'', Ref SECRETS), (''agents'', Ref AGENTS), (''identifiers'', Ref IDENTIFIERS),
          (''users'', Ref USERS), (''credentials'', Ref CREDENTIALS)]"

fun initial_heap :: heap where
  "initial_heap SECRETS = [(''browser_extension'', Str ''AUTOGENERATED_AT_RUNTIME'')]"
| "initial_heap AGENTS = [(''browser_extension'', Obj [(''secret'', Str ''browser_extension'')])]"
| "initial_heap IDENTIFIERS =
     [(''browser-extension-aid'',
       Obj [(''agent'', Str ''browser_extension''), (''name'', Str ''browser-extension-aid'')])]"
| "initial_heap USERS =
     [(''0'', Obj [(''type'', Str ''EXTENSION''), (''alias'', Str ''extension-user''),
                  (''identifiers'', Obj [(''0'', Str ''browser-extension-aid'')])])]"
| "initial_heap CREDENTIALS = []"

section \<open>Passcode generation\<close>

definition characters :: string where
  "characters = ''ABCDEFGHIJKLMNOPQRSTUVWXYZabcdefghijklmnopqrstuvwxyz0123456789-_''"

text \<open>\<^verbatim>\<open>s.charAt(i)\<close>: the empty string when \<open>i\<close> is out of range.\<close>

definition charAt :: "string \<Rightarrow> int \<Rightarrow> string" where
  "charAt s i = (if 0 \<le> i \<and> i < int (length s) then [s ! nat i] else [])"

text \<open>
  \<^verbatim>\<open>generateRandomPasscode\<close> (lines 192-203). \<open>random k\<close> is the value of the \<open>k\<close>-th call of
  \<^verbatim>\<open>Math.random()\<close> that the function makes; the loop runs while \<open>i < 20\<close>.
\<close>

function passcode_loop :: "(nat \<Rightarrow> real) \<Rightarrow> nat \<Rightarrow> string \<Rightarrow> string" where
  "passcode_loop random i result =
     (if i < 20
      then passcode_loop random (i + 1)
             (result @ charAt characters \<lfloor>random i * real (length characters)\<rfloor>)
      else result)"
  by pat_completeness auto
termination
  by (relation "measure (\<lambda>(random, i, result). 20 - i)") auto

declare passcode_loop.simps [simp del]

definition generateRandomPasscode :: "(nat \<Rightarrow> real) \<Rightarrow> string" where
  "generateRandomPasscode random = passcode_loop random 0 []"

text \<open>
  \<^verbatim>\<open>generatePasscodeAndConfig\<close> (lines 208-217) returns \<^verbatim>\<open>{ passcode, config }\<close>, here a pair.
\<close>

definition generatePasscodeAndConfig :: "(nat \<Rightarrow> real) \<Rightarrow> (string \<times> jsval) comp" where
  "generatePasscodeAndConfig random =
     (let passcode = generateRandomPasscode random in
      and_then (own_props DEFAULT_CLIENT_CONFIG) (\<lambda>copied.
      and_then (assign_in (Obj copied) ''secrets'' ''browser_extension'' (Str passcode)) (\<lambda>config.
      returns (passcode, config))))"

section \<open>The environment\<close>

text \<open>
  What the host and the libraries answer. \<open>fetch path\<close> is the outcome of resolving the
  bundled resource with \<^verbatim>\<open>getExtensionApi().runtime.getURL(path)\<close>, fetching it and reading
  its text: one of these steps throws or rejects with a value, or the response is not
  \<^verbatim>\<open>ok\<close> and has a status, or the text arrives. \<open>JSON_parse\<close> and \<open>yaml_load\<close> return the
  parsed value (for \<open>JSON_parse\<close> a JSON value: no reference, no built-in) or throw their
  exception (\<^verbatim>\<open>SyntaxError\<close>, \<^verbatim>\<open>YAMLException\<close>), given here by its message. \<open>storage_get key\<close> is what \<^verbatim>\<open>getExtensionApi().storage.local.get(key)\<close> gives:
  a thrown value or the result object. A request that never completes is not modelled.
\<close>

datatype fetch_outcome = Rejects jsval | Not_ok nat | Body string

record env =
  fetch :: "string \<Rightarrow> fetch_outcome"
  JSON_parse :: "string \<Rightarrow> string + jsval"
  yaml_load :: "jsval \<Rightarrow> string + jsval"
  storage_get :: "string \<Rightarrow> jsval + jsval"

definition parsed :: "string + jsval \<Rightarrow> jsval comp" where
  "parsed r = (case r of Inl m \<Rightarrow> throws (Error m) | Inr v \<Rightarrow> returns v)"

definition answered :: "jsval + jsval \<Rightarrow> jsval comp" where
  "answered r = (case r of Inl e \<Rightarrow> throws e | Inr v \<Rightarrow> returns v)"

text \<open>
  The first statements of both loaders: fetch the resource, throw
  \<^verbatim>\<open>new Error(`Failed to fetch ... file: ${response.status}`)\<close> when the response is not
  \<^verbatim>\<open>ok\<close>, and read the text.
\<close>

definition fetch_text :: "env \<Rightarrow> string \<Rightarrow> string \<Rightarrow> string comp" where
  "fetch_text E path what =
     (case fetch E path of
        Rejects e \<Rightarrow> throws e
      | Not_ok status \<Rightarrow> throws (Error (''Failed to fetch '' @ what @ '' file: '' @ dec status))
      | Body text \<Rightarrow> returns text)"

section \<open>Workflow lookup\<close>

definition quoted :: "string \<Rightarrow> string" where
  "quoted s = [CHR 0x27] @ s @ [CHR 0x27]"

fun join_lines :: "string list \<Rightarrow> string" where
  "join_lines [] = []"
| "join_lines [l] = l"
| "join_lines (l # ls) = l @ [CHR 0x0A] @ join_lines ls"

definition create_client_yaml :: string where
  "create_client_yaml = join_lines
     ['''',
      ''workflow:'',
      ''  steps:'',
      ''    gleif_client:'',
      ''      id: '' @ quoted ''gleif_client'',
      ''      type: '' @ quoted ''create_client'',
      ''      agent_name: '' @ quoted ''gleif-agent-1'',
      ''      description: '' @ quoted ''Creating client for gleif agent'',
      ''  '']"

definition create_aid_yaml :: string where
  "create_aid_yaml = join_lines
     ['''',
      ''workflow:'',
      ''  steps:'',
      ''    gleif_aid:'',
      ''      id: '' @ quoted ''gleif_aid'',
      ''      type: '' @ quoted ''create_aid'',
      ''      aid: '' @ quoted ''gleif-aid-1'',
      ''      description: '' @ quoted ''Creating AID for gleif-aid-1'',
      ''  '']"

text \<open>\<^verbatim>\<open>EMBEDDED_WORKFLOWS\<close> (lines 114-142), an object literal.\<close>

definition EMBEDDED_WORKFLOWS :: jsval where
  "EMBEDDED_WORKFLOWS =
     Obj [(''create-client'', Str create_client_yaml),
          (''create-client-workflow'', Str create_client_yaml),
          (''create-aid-workflow'', Str create_aid_yaml)]"

text \<open>\<^verbatim>\<open>getFallbackWorkflow\<close> (lines 278-316).\<close>

definition getFallbackWorkflow :: "string \<Rightarrow> jsval" where
  "getFallbackWorkflow workflowName =
     (if workflowName = ''create-client-workflow'' \<or> workflowName = ''create-client'' then
        Obj [(''workflow'', Obj [(''steps'', Obj [(''gleif_client'',
          Obj [(''id'', Str ''gleif_client''),
               (''type'', Str ''create_client''),
               (''agent_name'', Str ''gleif-agent-1''),
               (''description'', Str ''Creating client for gleif agent (FALLBACK)'')])])])]
      else if workflowName = ''create-aid-workflow'' then
        Obj [(''workflow'', Obj [(''steps'', Obj [(''gleif_aid'',
          Obj [(''id'', Str ''gleif_aid''),
               (''type'', Str ''create_aid''),
               (''aid'', Str ''gleif-aid-1''),
               (''description'', Str ''Creating AID for gleif-aid-1 (FALLBACK)'')])])])]
      else Null)"

definition workflow_path :: "string \<Rightarrow> string" where
  "workflow_path workflowName = ''src/workflows/'' @ workflowName @ ''.yaml''"

definition storage_key :: "string \<Rightarrow> string" where
  "storage_key workflowName = ''workflow_'' @ workflowName"

text \<open>The storage tier (lines 250-261): the inner \<^verbatim>\<open>try\<close> with its \<^verbatim>\<open>catch (storageError)\<close>,
  which logs \<^verbatim>\<open>`${storageError}`\<close>. \<open>None\<close> means that control goes on to the statement after
  it.\<close>

definition storage_tier :: "env \<Rightarrow> string \<Rightarrow> jsval option comp" where
  "storage_tier E workflowName =
     try_catch
       (and_then (answered (storage_get E (storage_key workflowName))) (\<lambda>result.
        and_then (get_prop result (storage_key workflowName)) (\<lambda>storedWorkflow.
          if truthy storedWorkflow
          then and_then (parsed (yaml_load E storedWorkflow)) (\<lambda>w. returns (Some w))
          else returns None)))
       (\<lambda>storageError. and_then (to_text storageError) (\<lambda>warning. returns None))"

text \<open>The body of the inner \<^verbatim>\<open>try\<close> of \<^verbatim>\<open>loadWorkflow\<close> (lines 226-238).\<close>

definition workflow_file :: "env \<Rightarrow> string \<Rightarrow> jsval comp" where
  "workflow_file E workflowName =
     and_then (fetch_text E (workflow_path workflowName) ''workflow'') (\<lambda>yamlText.
       parsed (yaml_load E (Str yamlText)))"

text \<open>
  Its handler (lines 239-266): the warning converts \<^verbatim>\<open>fetchError.message\<close> to a string, then
  come the embedded table, the storage and the hardcoded definitions.
\<close>

definition workflow_fallbacks :: "env \<Rightarrow> string \<Rightarrow> jsval \<Rightarrow> jsval comp" where
  "workflow_fallbacks E workflowName fetchError =
     and_then (message_text fetchError) (\<lambda>warning.
     and_then (get_prop EMBEDDED_WORKFLOWS workflowName) (\<lambda>embeddedWorkflow.
       if truthy embeddedWorkflow
       then parsed (yaml_load E embeddedWorkflow)
       else and_then (storage_tier E workflowName) (\<lambda>stored.
              case stored of
                Some w \<Rightarrow> returns w
              | None \<Rightarrow> returns (getFallbackWorkflow workflowName))))"

text \<open>
  \<^verbatim>\<open>loadWorkflow\<close> (lines 222-272): the inner \<^verbatim>\<open>try\<close> with its handler, inside the outer
  \<^verbatim>\<open>try\<close>, whose handler converts \<^verbatim>\<open>error.message\<close> for the log and returns the hardcoded
  definition.
\<close>

definition loadWorkflow :: "env \<Rightarrow> string \<Rightarrow> jsval comp" where
  "loadWorkflow E workflowName =
     try_catch
       (try_catch (workflow_file E workflowName) (workflow_fallbacks E workflowName))
       (\<lambda>error.
          and_then (message_text error) (\<lambda>logged.
            returns (getFallbackWorkflow workflowName)))"

section \<open>Config lookup\<close>

text \<open>
  The runtime overlay \<^verbatim>\<open>runtimeValues\<close>. The module tests it for truthiness and then reads
  five properties of it, so a truthy overlay is given by what those reads return
  (\<open>Undefined\<close> for a property that is absent) and \<open>None\<close> is a falsy overlay. \<open>aidName\<close>
  becomes a property name and the \<^verbatim>\<open>name: string\<close> of an identifier: it is a string,
  or \<open>None\<close> when absent.
\<close>

record runtime_values =
  agentUrl :: jsval
  bootUrl :: jsval
  passcode :: jsval
  bran :: jsval
  aidName :: "string option"

definition config_path :: "string \<Rightarrow> string" where
  "config_path configName = ''src/user_config/'' @ configName @ ''.json''"

text \<open>\<^verbatim>\<open>...(runtimeValues.bran ? { bran: runtimeValues.bran } : {})\<close>\<close>

definition bran_props :: "runtime_values \<Rightarrow> props" where
  "bran_props rv = (if truthy (bran rv) then [(''bran'', bran rv)] else [])"

text \<open>
  The object literal assigned to the agent entry in both branches (lines 346-354 and
  394-401).
\<close>

definition agent_entry :: "jsval \<Rightarrow> runtime_values \<Rightarrow> jsval comp" where
  "agent_entry old rv =
     and_then (own_props old) (\<lambda>copied.
       returns (Obj (literal [] (copied @
         [(''url'', agentUrl rv), (''boot_url'', bootUrl rv), (''passcode'', passcode rv)] @
         bran_props rv))))"

text \<open>
  Lines 344-355 (with the key \<^verbatim>\<open>'gleif-agent-1'\<close>) and 392-402 (with the key
  \<^verbatim>\<open>browser_extension\<close>): when \<^verbatim>\<open>config.agents && config.agents[key]\<close> is truthy, the entry
  is replaced by the object literal.
\<close>

definition update_agent :: "string \<Rightarrow> jsval \<Rightarrow> runtime_values \<Rightarrow> jsval comp" where
  "update_agent key config rv =
     and_then (get_prop config ''agents'') (\<lambda>agents.
     and_then (if truthy agents then get_prop agents key else returns agents) (\<lambda>entry.
       if truthy entry
       then and_then (agent_entry entry rv) (\<lambda>updated.
              assign_in config ''agents'' key updated)
       else returns config))"

text \<open>Lines 357-364 and 404-411: the top-level mirror of the URLs and of \<^verbatim>\<open>bran\<close>.\<close>

definition store_top_level :: "jsval \<Rightarrow> runtime_values \<Rightarrow> jsval comp" where
  "store_top_level config rv =
     and_then (assign config ''agentUrl'' (agentUrl rv)) (\<lambda>config.
     and_then (assign config ''bootUrl'' (bootUrl rv)) (\<lambda>config.
       if truthy (bran rv) then assign config ''bran'' (bran rv) else returns config))"

text \<open>The identifier that both branches insert for \<^verbatim>\<open>runtimeValues.aidName\<close>.\<close>

definition aid_entry :: "string \<Rightarrow> jsval" where
  "aid_entry name = Obj [(''agent'', Str ''gleif-agent-1''), (''name'', Str name)]"

text \<open>
  Lines 366-373, the loaded file: \<^verbatim>\<open>if (runtimeValues.aidName && config.identifiers)\<close>, then
  an assignment into the object \<^verbatim>\<open>config.identifiers\<close>.
\<close>

definition add_identifier_loaded :: "jsval \<Rightarrow> runtime_values \<Rightarrow> jsval comp" where
  "add_identifier_loaded config rv =
     (case aidName rv of
        None \<Rightarrow> returns config
      | Some name \<Rightarrow>
          if name = [] then returns config
          else and_then (get_prop config ''identifiers'') (\<lambda>identifiers.
                 if truthy identifiers
                 then assign_in config ''identifiers'' name (aid_entry name)
                 else returns config))"

text \<open>
  Lines 413-422, the default template: \<^verbatim>\<open>if (runtimeValues.aidName)\<close>, then
  \<^verbatim>\<open>config.identifiers\<close> becomes a new object, the copy of the old one with the entry added.
\<close>

definition add_identifier_default :: "jsval \<Rightarrow> runtime_values \<Rightarrow> jsval comp" where
  "add_identifier_default config rv =
     (case aidName rv of
        None \<Rightarrow> returns config
      | Some name \<Rightarrow>
          if name = [] then returns config
          else and_then (get_prop config ''identifiers'') (\<lambda>identifiers.
               and_then (own_props identifiers) (\<lambda>copied.
                 assign config ''identifiers''
                   (Obj (literal [] (copied @ [(name, aid_entry name)]))))))"

text \<open>Lines 386-389: the passcode replaces the placeholder in \<^verbatim>\<open>config.secrets\<close>.\<close>

definition inject_passcode :: "jsval \<Rightarrow> runtime_values \<Rightarrow> jsval comp" where
  "inject_passcode config rv =
     (if truthy (passcode rv)
      then assign_in config ''secrets'' ''browser_extension'' (passcode rv)
      else returns config)"

text \<open>The body of the inner \<^verbatim>\<open>try\<close> of \<^verbatim>\<open>loadConfig\<close> (lines 325-376).\<close>

definition file_branch :: "env \<Rightarrow> string \<Rightarrow> runtime_values option \<Rightarrow> jsval comp" where
  "file_branch E configName runtimeValues =
     and_then (fetch_text E (config_path configName) ''config'') (\<lambda>configText.
     and_then (parsed (JSON_parse E configText)) (\<lambda>config.
       case runtimeValues of
         None \<Rightarrow> returns config
       | Some rv \<Rightarrow>
           and_then (update_agent ''gleif-agent-1'' config rv) (\<lambda>config.
           and_then (store_top_level config rv) (\<lambda>config.
             add_identifier_loaded config rv))))"

text \<open>
  The handler of the inner \<^verbatim>\<open>try\<close> (lines 377-426), the default-template branch. It
  starts by converting \<^verbatim>\<open>fetchError.message\<close> to a string for the warning, then copies the
  template with \<^verbatim>\<open>{ ...DEFAULT_CLIENT_CONFIG }\<close>.
\<close>

definition default_branch :: "runtime_values option \<Rightarrow> jsval \<Rightarrow> jsval comp" where
  "default_branch runtimeValues fetchError =
     and_then (message_text fetchError) (\<lambda>warning.
     and_then (own_props DEFAULT_CLIENT_CONFIG) (\<lambda>copied.
       case runtimeValues of
         None \<Rightarrow> returns (Obj copied)
       | Some rv \<Rightarrow>
           and_then (inject_passcode (Obj copied) rv) (\<lambda>config.
           and_then (update_agent ''browser_extension'' config rv) (\<lambda>config.
           and_then (store_top_level config rv) (\<lambda>config.
             add_identifier_default config rv)))))"

text \<open>
  \<^verbatim>\<open>loadConfig\<close> (lines 321-431): the inner \<^verbatim>\<open>try\<close> with its handler, inside the outer
  \<^verbatim>\<open>try\<close>, whose handler converts \<^verbatim>\<open>error.message\<close> for the log and returns \<^verbatim>\<open>null\<close>.
\<close>

definition loadConfig :: "env \<Rightarrow> string \<Rightarrow> runtime_values option \<Rightarrow> jsval comp" where
  "loadConfig E configName runtimeValues =
     try_catch
       (try_catch (file_branch E configName runtimeValues) (default_branch runtimeValues))
       (\<lambda>error. and_then (message_text error) (\<lambda>logged. returns Null))"

text \<open>The own properties of the copy \<^verbatim>\<open>{ ...DEFAULT_CLIENT_CONFIG }\<close>.\<close>

definition default_props :: props where
  "default_props =
     [(''secrets'', Ref SECRETS), (''agents'', Ref AGENTS), (''identifiers'', Ref IDENTIFIERS),
      (''users'', Ref USERS), (''credentials'', Ref CREDENTIALS)]"

section \<open>Observing a result\<close>

text \<open>
  \<open>read_path h v [k1, k2]\<close> is the value of the expression \<^verbatim>\<open>v.k1.k2\<close> in the store \<open>h\<close>
  (\<open>Inl\<close> when a read throws), and \<open>has_own h v k\<close> says that the object \<open>v\<close> has an own
  property \<open>k\<close>, whatever its value.
\<close>

fun read_path :: "heap \<Rightarrow> jsval \<Rightarrow> string list \<Rightarrow> jsval + jsval" where
  "read_path h v [] = Inr v"
| "read_path h v (k # ks) =
     (case fst (get_prop v k h) of Inl e \<Rightarrow> Inl e | Inr w \<Rightarrow> read_path h w ks)"

fun has_own :: "heap \<Rightarrow> jsval \<Rightarrow> string \<Rightarrow> bool" where
  "has_own h (Obj ps) k = has_key ps k"
| "has_own h (Ref r) k = has_key (h r) k"
| "has_own h v k = False"

text \<open>
  A failure value whose logging cannot throw: an object whose own \<^verbatim>\<open>message\<close> is a primitive
  value (an \<^verbatim>\<open>Error\<close> instance has a string there) or is missing, or a thrown boolean, number
  or string. What \<^verbatim>\<open>fetch\<close> and \<^verbatim>\<open>response.text()\<close> reject with by their specification, a
  \<^verbatim>\<open>TypeError\<close> or a \<^verbatim>\<open>DOMException\<close>, is of this kind, and so is the \<^verbatim>\<open>Error\<close> that the
  loaders throw for a response that is not \<^verbatim>\<open>ok\<close>. For these values the conversion is followed
  exactly: none of its two limits applies.
\<close>

fun primitive :: "jsval \<Rightarrow> bool" where
  "primitive (Obj ps) = False"
| "primitive (Ref r) = False"
| "primitive (Native n) = False"
| "primitive v = True"

fun plain_failure :: "jsval \<Rightarrow> bool" where
  "plain_failure (Obj ps) = primitive (member ps ''message'')"
| "plain_failure (Bool b) = True"
| "plain_failure (Num n) = True"
| "plain_failure (Str s) = True"
| "plain_failure v = False"

text \<open>
  The bundled file is unavailable: the response is not \<^verbatim>\<open>ok\<close>, or a step of the request
  failed with such a value. A rejection with \<^verbatim>\<open>undefined\<close> or \<^verbatim>\<open>null\<close>, or with a value whose
  \<^verbatim>\<open>message\<close> is an object, is not counted: logging it can throw inside the handler.
\<close>

fun unavailable :: "fetch_outcome \<Rightarrow> bool" where
  "unavailable (Rejects e) = plain_failure e"
| "unavailable (Not_ok status) = True"
| "unavailable (Body text) = False"

text \<open>
  The states of the template that the module can be in: the one at load time, and the one
  after any call of an exported function, with any environment and any arguments. What a
  caller writes into a config it was given is not part of this.
\<close>

inductive reachable :: "heap \<Rightarrow> bool" where
  at_load: "reachable initial_heap"
| after_loadConfig:
    "reachable h \<Longrightarrow> loadConfig E configName runtimeValues h = (r, h') \<Longrightarrow> reachable h'"
| after_generatePasscodeAndConfig:
    "reachable h \<Longrightarrow> generatePasscodeAndConfig random h = (p, h') \<Longrightarrow> reachable h'"
| after_loadWorkflow:
    "reachable h \<Longrightarrow> loadWorkflow E workflowName h = (r, h') \<Longrightarrow> reachable h'"

fun is_object :: "jsval \<Rightarrow> bool" where
  "is_object (Obj ps) = True"
| "is_object v = False"

text \<open>The template still has its agent entry \<^verbatim>\<open>agents.browser_extension\<close>, an object.\<close>

definition template_agent_ok :: "heap \<Rightarrow> bool" where
  "template_agent_ok h = is_object (member (h AGENTS) ''browser_extension'')"

text \<open>\<open>keeps I c\<close> says that \<open>c\<close>, started in a store where \<open>I\<close> holds, ends in one where \<open>I\<close>
  holds, whether it returns or throws.\<close>

definition keeps :: "(heap \<Rightarrow> bool) \<Rightarrow> 'a comp \<Rightarrow> bool" where
  "keeps I c = (\<forall>h r h'. I h \<longrightarrow> c h = (r, h') \<longrightarrow> I h')"

text \<open>\<open>raises_errors c\<close> says that whatever \<open>c\<close> throws is an \<^verbatim>\<open>Error\<close> instance.\<close>

definition raises_errors :: "'a comp \<Rightarrow> bool" where
  "raises_errors c = (\<forall>h e h'. c h = (Inl e, h') \<longrightarrow> (\<exists>m. e = Error m))"

text \<open>
  A workflow result is settled when it is something the YAML parser returned or the
  hardcoded definition for the name (which is \<^verbatim>\<open>null\<close> for an unknown name).
\<close>

definition settled :: "env \<Rightarrow> string \<Rightarrow> jsval \<Rightarrow> bool" where
  "settled E workflowName v =
     ((\<exists>x. yaml_load E x = Inr v) \<or> v = getFallbackWorkflow workflowName)"

section \<open>Example inputs\<close>

text \<open>What a YAML parser makes of the two embedded documents.\<close>

definition create_client_parsed :: jsval where
  "create_client_parsed =
     Obj [(''workflow'', Obj [(''steps'', Obj [(''gleif_client'',
       Obj [(''id'', Str ''gleif_client''),
            (''type'', Str ''create_client''),
            (''agent_name'', Str ''gleif-agent-1''),
            (''description'', Str ''Creating client for gleif agent'')])])])]"

definition create_aid_parsed :: jsval where
  "create_aid_parsed =
     Obj [(''workflow'', Obj [(''steps'', Obj [(''gleif_aid'',
       Obj [(''id'', Str ''gleif_aid''),
            (''type'', Str ''create_aid''),
            (''aid'', Str ''gleif-aid-1''),
            (''description'', Str ''Creating AID for gleif-aid-1'')])])])]"

definition js_yaml_example :: "jsval \<Rightarrow> string + jsval" where
  "js_yaml_example v =
     (if v = Str create_client_yaml then Inr create_client_parsed
      else if v = Str create_aid_yaml then Inr create_aid_parsed
      else Inl ''YAMLException'')"

text \<open>
  An extension without bundled files and without storage: every fetch is answered with
  status 404, reading the storage fails, and the parsers reject everything but the embedded
  documents.
\<close>

definition offline :: env where
  "offline =
     \<lparr>fetch = (\<lambda>path. Not_ok 404),
      JSON_parse = (\<lambda>text. Inl ''SyntaxError''),
      yaml_load = js_yaml_example,
      storage_get = (\<lambda>key. Inl (Error ''storage is not available''))\<rparr>"

text \<open>An extension whose API rejects every request without a reason.\<close>

definition rejecting :: env where
  "rejecting = offline\<lparr>fetch := (\<lambda>path. Rejects Undefined)\<rparr>"

text \<open>The failure value \<^verbatim>\<open>{message: {toString: null, valueOf: null}}\<close>.\<close>

definition unprintable_rejection :: jsval where
  "unprintable_rejection =
     Obj [(''message'', Obj [(''toString'', Null), (''valueOf'', Null)])]"

text \<open>An extension whose bundled files are all damaged: they hold a lone brace.\<close>

definition malformed :: env where
  "malformed = offline\<lparr>fetch := (\<lambda>path. Body ''{'')\<rparr>"

text \<open>The overlay \<^verbatim>\<open>{agentUrl: "U", bootUrl: "B", passcode: "P", bran: "BR"}\<close>.\<close>

definition overlay_UBPBR :: runtime_values where
  "overlay_UBPBR =
     \<lparr>agentUrl = Str ''U'', bootUrl = Str ''B'', passcode = Str ''P'', bran = Str ''BR'',
      aidName = None\<rparr>"

text \<open>The overlay \<^verbatim>\<open>{agentUrl: "U2", bootUrl: "B2"}\<close>, with no passcode and no bran.\<close>

definition overlay_U2B2 :: runtime_values where
  "overlay_U2B2 =
     \<lparr>agentUrl = Str ''U2'', bootUrl = Str ''B2'', passcode = Undefined, bran = Undefined,
      aidName = None\<rparr>"

text \<open>The overlay \<^verbatim>\<open>{agentUrl: "U", bootUrl: "B", passcode: "P"}\<close>, with no bran.\<close>

definition overlay_UBP :: runtime_values where
  "overlay_UBP =
     \<lparr>agentUrl = Str ''U'', bootUrl = Str ''B'', passcode = Str ''P'', bran = Undefined,
      aidName = None\<rparr>"

text \<open>The overlay \<^verbatim>\<open>{aidName: "aid1"}\<close>.\<close>

definition overlay_aid1 :: runtime_values where
  "overlay_aid1 =
     \<lparr>agentUrl = Undefined, bootUrl = Undefined, passcode = Undefined, bran = Undefined,
      aidName = Some ''aid1''\<rparr>"

text \<open>The template as the call \<^verbatim>\<open>loadConfig('client', {agentUrl: "U", bootUrl: "B", passcode: "P",
  bran: "BR"})\<close> leaves it, when that call is the first one and no file is bundled.\<close>

definition after_UBPBR :: heap where
  "after_UBPBR = snd (loadConfig offline ''client'' (Some overlay_UBPBR) initial_heap)"

text \<open>
  The invariant of the data model: every entry of \<^verbatim>\<open>config.identifiers\<close> has an \<^verbatim>\<open>agent\<close>
  that is the name of an own property of \<^verbatim>\<open>config.agents\<close>.
\<close>

definition names_agent :: "heap \<Rightarrow> jsval \<Rightarrow> jsval \<Rightarrow> bool" where
  "names_agent h agents identifier =
     (case read_path h identifier [''agent''] of
        Inr (Str a) \<Rightarrow> has_own h agents a
      | _ \<Rightarrow> False)"

definition agent_refs_ok :: "heap \<Rightarrow> jsval \<Rightarrow> bool" where
  "agent_refs_ok h config =
     (case (read_path h config [''identifiers''], read_path h config [''agents'']) of
        (Inr identifiers, Inr agents) \<Rightarrow>
          list_all (\<lambda>(name, identifier). names_agent h agents identifier) (spread h identifiers)
      | _ \<Rightarrow> False)"

section \<open>Properties\<close>

subsection \<open>Sequencing\<close>

lemma and_then_returns [simp]: "and_then (returns x) f = f x"
  by (rule ext) (simp add: and_then_def returns_def)

lemma and_then_throws [simp]: "and_then (throws e) f = throws e"
  by (rule ext) (simp add: and_then_def throws_def)

lemma try_catch_returns [simp]: "try_catch (returns x) f = returns x"
  by (rule ext) (simp add: try_catch_def returns_def)

lemma try_catch_throws [simp]: "try_catch (throws e) f = f e"
  by (rule ext) (simp add: try_catch_def throws_def)

lemma own_props_Obj [simp]: "own_props (Obj ps) = returns ps"
  by (rule ext) (simp add: own_props_def returns_def)

subsection \<open>Own properties\<close>

lemma has_key_put: "has_key (put ps k v) k' = (k = k' \<or> has_key ps k')"
  by (induction ps) (auto split: if_splits)

lemma lookup_put: "lookup (put ps k v) k' = (if k = k' then v else lookup ps k')"
  by (induction ps) auto

lemma member_put: "member (put ps k v) k' = (if k = k' then v else member ps k')"
  by (simp add: member_def has_key_put lookup_put)

lemma member_Cons [simp]: "member ((k', v) # ps) k = (if k' = k then v else member ps k)"
  by (simp add: member_def)

lemma member_Nil: "member [] k = (if k \<in> set Object_prototype_keys then Native (''Object.prototype.'' @ k) else Undefined)"
  by (simp add: member_def)

lemma member_assigned_other: "k \<noteq> k' \<Longrightarrow> member (assigned ps k v) k' = member ps k'"
  by (simp add: assigned_def member_put)

lemma member_assigned_same: "k \<noteq> ''__proto__'' \<Longrightarrow> member (assigned ps k v) k = v"
  by (simp add: assigned_def member_put)

lemma has_key_literal: "has_key (literal acc kvs) k = (has_key acc k \<or> has_key kvs k)"
  by (induction acc kvs rule: literal.induct) (auto simp: has_key_put)

lemma has_key_append: "has_key (ps @ qs) k = (has_key ps k \<or> has_key qs k)"
  by (induction ps) auto

subsection \<open>The passcode loop\<close>

lemma length_characters: "length characters = 64"
  by (simp add: characters_def)

lemma floor_index:
  fixes r :: real
  assumes "0 \<le> r" "r < 1"
  shows "0 \<le> \<lfloor>r * 64\<rfloor> \<and> \<lfloor>r * 64\<rfloor> < 64"
proof -
  have "0 \<le> r * 64" using assms by simp
  moreover have "r * 64 < 64" using assms by simp
  ultimately show ?thesis by (simp add: floor_less_iff)
qed

lemma charAt_characters:
  fixes r :: real
  assumes "0 \<le> r" "r < 1"
  shows "\<exists>c. charAt characters \<lfloor>r * real (length characters)\<rfloor> = [c] \<and> c \<in> set characters"
proof -
  let ?i = "\<lfloor>r * 64\<rfloor>"
  have b: "0 \<le> ?i \<and> ?i < 64" using assms by (rule floor_index)
  then have "nat ?i < 64" by linarith
  then have "nat ?i < length characters" by (simp only: length_characters)
  then have "characters ! nat ?i \<in> set characters" by (rule nth_mem)
  with b show ?thesis by (simp add: charAt_def length_characters)
qed

lemma passcode_loop_shape:
  assumes "\<forall>k<20. 0 \<le> random k \<and> random k < 1"
  shows "length (passcode_loop random i result) = length result + (20 - i) \<and>
         set (passcode_loop random i result) \<subseteq> set result \<union> set characters"
  using assms
proof (induction random i result rule: passcode_loop.induct)
  case (1 random i result)
  show ?case
  proof (cases "i < 20")
    case True
    with "1.prems" have "0 \<le> random i" "random i < 1" by auto
    then obtain c where c: "charAt characters \<lfloor>random i * real (length characters)\<rfloor> = [c]"
      "c \<in> set characters" using charAt_characters by blast
    from "1.IH" [OF True "1.prems"] True c show ?thesis
      by (subst passcode_loop.simps, subst (2) passcode_loop.simps) auto
  next
    case False
    then show ?thesis by (subst passcode_loop.simps, subst (2) passcode_loop.simps) simp
  qed
qed

lemma default_copy:
  "own_props DEFAULT_CLIENT_CONFIG =
   returns [(''secrets'', Ref SECRETS), (''agents'', Ref AGENTS), (''identifiers'', Ref IDENTIFIERS),
            (''users'', Ref USERS), (''credentials'', Ref CREDENTIALS)]"
  by (simp add: DEFAULT_CLIENT_CONFIG_def)

lemma assign_in_secrets:
  "lookup ps ''secrets'' = Ref SECRETS \<Longrightarrow> has_key ps ''secrets'' \<Longrightarrow>
   assign_in (Obj ps) ''secrets'' k v h = (Inr (Obj ps), h(SECRETS := assigned (h SECRETS) k v))"
  by (simp add: assign_in_def and_then_def returns_def member_def write_back_def)

lemma assign_in_agents:
  "lookup ps ''agents'' = Ref AGENTS \<Longrightarrow> has_key ps ''agents'' \<Longrightarrow>
   assign_in (Obj ps) ''agents'' k v h = (Inr (Obj ps), h(AGENTS := assigned (h AGENTS) k v))"
  by (simp add: assign_in_def and_then_def returns_def member_def write_back_def)

subsection \<open>Passcode generation\<close>

lemma generate_run:
  "generatePasscodeAndConfig random h =
     (Inr (generateRandomPasscode random,
           Obj [(''secrets'', Ref SECRETS), (''agents'', Ref AGENTS), (''identifiers'', Ref IDENTIFIERS),
                (''users'', Ref USERS), (''credentials'', Ref CREDENTIALS)]),
      h(SECRETS := put (h SECRETS) ''browser_extension'' (Str (generateRandomPasscode random))))"
  by (simp add: generatePasscodeAndConfig_def Let_def default_copy assign_in_secrets and_then_def
      returns_def assigned_def)

text \<open>
  C9: when every \<^verbatim>\<open>Math.random()\<close> value lies in the interval from 0 (included) to 1
  (excluded), \<^verbatim>\<open>generatePasscodeAndConfig\<close> returns a passcode of exactly 20 characters, each
  one of the 64 characters of the alphabet, together with a config whose
  \<^verbatim>\<open>secrets.browser_extension\<close> is that passcode.
\<close>

theorem generatePasscodeAndConfig_passcode:
  assumes "\<forall>k<20. 0 \<le> random k \<and> random k < 1"
  shows "\<exists>code config h'.
           generatePasscodeAndConfig random h = (Inr (code, config), h') \<and>
           length code = 20 \<and> set code \<subseteq> set characters \<and>
           length characters = 64 \<and>
           read_path h' config [''secrets'', ''browser_extension''] = Inr (Str code)"
proof -
  let ?code = "generateRandomPasscode random"
  from passcode_loop_shape [OF assms, of 0 "[]"]
  have shape: "length ?code = 20" "set ?code \<subseteq> set characters"
    by (simp_all add: generateRandomPasscode_def)
  show ?thesis
    apply (rule exI [of _ ?code])
    apply (simp add: generate_run shape length_characters)
    apply (simp add: returns_def member_put)
    done
qed

theorem generatePasscodeAndConfig_passcode_witness:
  "\<exists>code config h'.
     generatePasscodeAndConfig (\<lambda>k. 1 / 2) initial_heap = (Inr (code, config), h') \<and>
     length code = 20 \<and> set code \<subseteq> set characters \<and>
     length characters = 64 \<and>
     read_path h' config [''secrets'', ''browser_extension''] = Inr (Str code)"
  using generatePasscodeAndConfig_passcode [of "\<lambda>k. 1 / 2" initial_heap] by simp

subsection \<open>Workflow lookup never throws\<close>

lemma parsed_run:
  "parsed r h = (case r of Inl m \<Rightarrow> (Inl (Error m), h) | Inr v \<Rightarrow> (Inr v, h))"
  by (simp add: parsed_def throws_def returns_def split: sum.splits)

lemma answered_run:
  "answered r h = (case r of Inl e \<Rightarrow> (Inl e, h) | Inr v \<Rightarrow> (Inr v, h))"
  by (simp add: answered_def throws_def returns_def split: sum.splits)

lemma fetch_text_run:
  "fetch_text E path what h =
     (case fetch E path of
        Rejects e \<Rightarrow> (Inl e, h)
      | Not_ok status \<Rightarrow> (Inl (Error (''Failed to fetch '' @ what @ '' file: '' @ dec status)), h)
      | Body text \<Rightarrow> (Inr text, h))"
  by (simp add: fetch_text_def throws_def returns_def split: fetch_outcome.splits)

lemma get_prop_cases:
  obtains (thrown) "v = Undefined \<or> v = Null" "get_prop v k h = (Inl TypeError, h)"
        | (defined) w where "v \<noteq> Undefined" "v \<noteq> Null" "get_prop v k h = (Inr w, h)"
  by (cases v) (simp_all add: throws_def returns_def)

lemma message_text_nullish [simp]:
  "message_text Undefined = throws TypeError" "message_text Null = throws TypeError"
  by (simp_all add: message_text_def)

lemma to_text_primitive: "primitive v \<Longrightarrow> to_text v = returns ()"
  by (cases v) simp_all

lemma message_text_plain: "plain_failure e \<Longrightarrow> message_text e = returns ()"
  by (cases e) (simp_all add: message_text_def to_text_primitive)

lemma get_prop_Error [simp]: "get_prop (Error m) k = returns (member [(''message'', Str m)] k)"
  by (simp add: Error_def)

lemma plain_failure_Error [simp]: "plain_failure (Error m)" "plain_failure TypeError"
  by (simp_all add: Error_def TypeError_def)

lemma message_text_Error [simp]:
  "message_text (Error m) = returns ()" "message_text TypeError = returns ()"
  by (simp_all add: message_text_plain)

lemma to_text_Error [simp]: "to_text (Error m) = returns ()" "to_text TypeError = returns ()"
  by (simp_all add: Error_def TypeError_def unprintable_def)

lemma to_text_run: "to_text v h = (Inl TypeError, h) \<or> to_text v h = (Inr (), h)"
  by (cases v) (simp_all add: throws_def returns_def)

lemma to_text_cases:
  obtains (thrown) "to_text v h = (Inl TypeError, h)" | (printed) "to_text v h = (Inr (), h)"
  using to_text_run [of v h] by blast

lemma message_text_cases:
  obtains (thrown) "message_text e h = (Inl TypeError, h)"
        | (printed) "message_text e h = (Inr (), h)"
proof (cases e "''message''" h rule: get_prop_cases)
  case thrown
  then have "message_text e h = (Inl TypeError, h)"
    by (simp add: message_text_def and_then_def)
  then show ?thesis by (rule that(1))
next
  case (defined w)
  then have "message_text e h = to_text w h"
    by (simp add: message_text_def and_then_def)
  then show ?thesis by (cases w h rule: to_text_cases) (auto intro: that)
qed

lemma storage_tier_total:
  "\<exists>r. storage_tier E n h = (r, h) \<and>
       (case r of
          Inl e \<Rightarrow> e = TypeError
        | Inr None \<Rightarrow> True
        | Inr (Some w) \<Rightarrow> \<exists>x. yaml_load E x = Inr w)"
proof -
  let ?body = "and_then (answered (storage_get E (storage_key n))) (\<lambda>result.
        and_then (get_prop result (storage_key n)) (\<lambda>storedWorkflow.
          if truthy storedWorkflow
          then and_then (parsed (yaml_load E storedWorkflow)) (\<lambda>w. returns (Some w))
          else returns None))"
  have handled: "\<exists>r. and_then (to_text e) (\<lambda>warning. returns None) h = (r, h) \<and>
       (case r of
          Inl e \<Rightarrow> e = TypeError
        | Inr None \<Rightarrow> True
        | Inr (Some w) \<Rightarrow> \<exists>x. yaml_load E x = Inr w)" for e :: jsval
    by (cases e h rule: to_text_cases) (simp_all add: and_then_def returns_def)
  have body: "(\<exists>e. ?body h = (Inl e, h)) \<or> ?body h = (Inr None, h) \<or>
       (\<exists>w x. ?body h = (Inr (Some w), h) \<and> yaml_load E x = Inr w)"
  proof (cases "storage_get E (storage_key n)")
    case (Inl e)
    then show ?thesis by (simp add: and_then_def answered_run)
  next
    case (Inr result)
    show ?thesis
    proof (cases result "storage_key n" h rule: get_prop_cases)
      case thrown
      with Inr show ?thesis by (simp add: and_then_def answered_run)
    next
      case (defined stored)
      show ?thesis
      proof (cases "truthy stored")
        case False
        with Inr defined show ?thesis by (simp add: and_then_def answered_run returns_def)
      next
        case True
        with Inr defined show ?thesis
          by (cases "yaml_load E stored")
            (auto simp: and_then_def answered_run returns_def parsed_run)
      qed
    qed
  qed
  from body show ?thesis
  proof (elim disjE exE conjE)
    fix e
    assume "?body h = (Inl e, h)"
    then have "storage_tier E n h = and_then (to_text e) (\<lambda>warning. returns None) h"
      by (simp add: storage_tier_def try_catch_def)
    with handled [of e] show ?thesis by simp
  next
    assume "?body h = (Inr None, h)"
    then show ?thesis by (simp add: storage_tier_def try_catch_def)
  next
    fix w x
    assume "?body h = (Inr (Some w), h)" and "yaml_load E x = Inr w"
    then show ?thesis by (auto simp: storage_tier_def try_catch_def)
  qed
qed

lemma embedded_tier_settles:
  "\<exists>r. (and_then (get_prop EMBEDDED_WORKFLOWS n) (\<lambda>embeddedWorkflow.
               if truthy embeddedWorkflow
               then parsed (yaml_load E embeddedWorkflow)
               else and_then (storage_tier E n) (\<lambda>stored.
                      case stored of
                        Some w \<Rightarrow> returns w
                      | None \<Rightarrow> returns (getFallbackWorkflow n)))) h = (r, h) \<and>
       (case r of Inl e \<Rightarrow> (\<exists>m. e = Error m) | Inr v \<Rightarrow> settled E n v)"
proof -
  obtain emb where emb: "get_prop EMBEDDED_WORKFLOWS n h = (Inr emb, h)"
    by (simp add: EMBEDDED_WORKFLOWS_def returns_def)
  show ?thesis
  proof (cases "truthy emb")
    case True
    with emb show ?thesis
      by (cases "yaml_load E emb") (auto simp: and_then_def parsed_run settled_def)
  next
    case False
    from storage_tier_total [of E n h] obtain r where
      r: "storage_tier E n h = (r, h)"
      "case r of Inl e \<Rightarrow> e = TypeError | Inr None \<Rightarrow> True
       | Inr (Some w) \<Rightarrow> \<exists>x. yaml_load E x = Inr w"
      by blast
    show ?thesis
    proof (cases r)
      case (Inl e)
      with r emb False show ?thesis
        by (auto simp: and_then_def TypeError_def)
    next
      case (Inr stored)
      with r emb False show ?thesis
        by (cases stored) (auto simp: and_then_def returns_def settled_def)
    qed
  qed
qed

lemma workflow_fallbacks_settles:
  "\<exists>r. workflow_fallbacks E n fetchError h = (r, h) \<and>
       (case r of Inl e \<Rightarrow> (\<exists>m. e = Error m) | Inr v \<Rightarrow> settled E n v)"
proof (cases fetchError h rule: message_text_cases)
  case thrown
  then show ?thesis by (auto simp: workflow_fallbacks_def and_then_def TypeError_def)
next
  case printed
  with embedded_tier_settles [of n E h] show ?thesis
    by (simp add: workflow_fallbacks_def and_then_def)
qed

lemma workflow_file_settles:
  "(\<exists>e. workflow_file E n h = (Inl e, h)) \<or>
   (\<exists>v. workflow_file E n h = (Inr v, h) \<and> settled E n v)"
  by (auto simp: workflow_file_def and_then_def fetch_text_run parsed_run settled_def
      split: fetch_outcome.splits sum.splits)

lemma workflow_tiers_settle:
  "\<exists>r. try_catch (workflow_file E n) (workflow_fallbacks E n) h = (r, h) \<and>
       (case r of Inl e \<Rightarrow> (\<exists>m. e = Error m) | Inr v \<Rightarrow> settled E n v)"
  using workflow_file_settles [of E n h]
proof
  assume "\<exists>e. workflow_file E n h = (Inl e, h)"
  then obtain e where "workflow_file E n h = (Inl e, h)" ..
  then have "try_catch (workflow_file E n) (workflow_fallbacks E n) h = workflow_fallbacks E n e h"
    by (simp add: try_catch_def)
  with workflow_fallbacks_settles [of E n e h] show ?thesis by simp
next
  assume "\<exists>v. workflow_file E n h = (Inr v, h) \<and> settled E n v"
  then show ?thesis by (auto simp: try_catch_def)
qed

text \<open>
  C5: \<^verbatim>\<open>loadWorkflow\<close> never throws. Whatever the fetch, the YAML parser and the storage do
  (reject, throw, answer with anything), it returns a value, which is a result of the
  parser or the hardcoded definition for the name (\<^verbatim>\<open>null\<close> for an unknown name), and it
  leaves the template alone.
\<close>

theorem loadWorkflow_never_throws:
  "\<exists>v. loadWorkflow E workflowName h = (Inr v, h) \<and>
       ((\<exists>x. yaml_load E x = Inr v) \<or> v = getFallbackWorkflow workflowName)"
proof -
  from workflow_tiers_settle [of E workflowName h] obtain r where
    r: "try_catch (workflow_file E workflowName) (workflow_fallbacks E workflowName) h = (r, h)"
    "case r of Inl e \<Rightarrow> (\<exists>m. e = Error m) | Inr v \<Rightarrow> settled E workflowName v" by blast
  show ?thesis
  proof (cases r)
    case (Inl e)
    with r obtain m where "e = Error m" by auto
    with r Inl show ?thesis
      by (simp add: loadWorkflow_def try_catch_def returns_def)
  next
    case (Inr v)
    with r show ?thesis
      by (simp add: loadWorkflow_def try_catch_def settled_def)
  qed
qed

subsection \<open>Config lookup fails closed\<close>

lemma raises_errors_returns [intro!, simp]: "raises_errors (returns x)"
  by (simp add: raises_errors_def returns_def)

lemma raises_errors_throws [intro!, simp]: "raises_errors (throws (Error m))"
  by (auto simp: raises_errors_def throws_def)

lemma raises_errors_TypeError [intro!, simp]: "raises_errors (throws TypeError)"
  by (simp add: TypeError_def)

lemma raises_errors_and_then [intro!]:
  assumes "raises_errors m" and "\<And>x. raises_errors (f x)"
  shows "raises_errors (and_then m f)"
  unfolding raises_errors_def
proof (intro allI impI)
  fix h e h'
  assume run: "and_then m f h = (Inl e, h')"
  obtain r1 h1 where m: "m h = (r1, h1)" by (cases "m h")
  show "\<exists>msg. e = Error msg"
  proof (cases r1)
    case (Inl e1)
    with m run have "m h = (Inl e, h')" by (simp add: and_then_def)
    with assms(1) show ?thesis unfolding raises_errors_def by blast
  next
    case (Inr x)
    with m run have "f x h1 = (Inl e, h')" by (simp add: and_then_def)
    with assms(2) show ?thesis unfolding raises_errors_def by blast
  qed
qed

lemma raises_errors_get_prop [intro!, simp]: "raises_errors (get_prop v k)"
  by (cases v) (auto simp: raises_errors_def returns_def throws_def TypeError_def)

lemma raises_errors_to_text [intro!, simp]: "raises_errors (to_text v)"
  by (cases v) (auto simp: raises_errors_def returns_def throws_def TypeError_def)

lemma raises_errors_message_text [intro!, simp]: "raises_errors (message_text x)"
  unfolding message_text_def by (intro raises_errors_and_then) simp_all

lemma raises_errors_assign [intro!, simp]: "raises_errors (assign x k v)"
  by (cases x) (auto simp: raises_errors_def returns_def throws_def TypeError_def)

lemma raises_errors_write_back [intro!, simp]: "raises_errors (write_back x a t)"
  by (cases t; cases x) (simp_all add: write_back_def raises_errors_def returns_def)

lemma raises_errors_own_props [intro!, simp]: "raises_errors (own_props v)"
  by (simp add: raises_errors_def own_props_def)

lemma raises_errors_if [intro!]:
  "raises_errors a \<Longrightarrow> raises_errors b \<Longrightarrow> raises_errors (if c then a else b)"
  by simp

lemma raises_errors_case_option [intro!]:
  "raises_errors a \<Longrightarrow> (\<And>x. raises_errors (b x)) \<Longrightarrow>
   raises_errors (case v of None \<Rightarrow> a | Some x \<Rightarrow> b x)"
  by (cases v) simp_all

lemma raises_errors_assign_in [intro!, simp]: "raises_errors (assign_in x a k v)"
  unfolding assign_in_def by (intro raises_errors_and_then) simp_all

lemma raises_errors_agent_entry [intro!, simp]: "raises_errors (agent_entry old rv)"
  unfolding agent_entry_def by (intro raises_errors_and_then) simp_all

lemma raises_errors_update_agent [intro!, simp]: "raises_errors (update_agent key config rv)"
  unfolding update_agent_def
  by (intro raises_errors_and_then raises_errors_if) simp_all

lemma raises_errors_store_top_level [intro!, simp]: "raises_errors (store_top_level config rv)"
  unfolding store_top_level_def
  by (intro raises_errors_and_then raises_errors_if) simp_all

lemma raises_errors_add_identifier_default [intro!, simp]:
  "raises_errors (add_identifier_default config rv)"
  unfolding add_identifier_default_def
  by (intro raises_errors_case_option raises_errors_if raises_errors_and_then) simp_all

lemma raises_errors_inject_passcode [intro!, simp]: "raises_errors (inject_passcode config rv)"
  unfolding inject_passcode_def by (intro raises_errors_if) simp_all

lemma raises_errors_default_branch: "raises_errors (default_branch rv e)"
  unfolding default_branch_def
  by (intro raises_errors_case_option raises_errors_and_then) simp_all

lemma handler_returns:
  "and_then (message_text (Error m)) (\<lambda>logged. returns x) h = (Inr x, h)"
  by (simp add: returns_def)

text \<open>
  C7: \<^verbatim>\<open>loadConfig\<close> fails closed. When the bundled file could not be used and the
  default-template branch throws in its turn, \<^verbatim>\<open>loadConfig\<close> returns \<^verbatim>\<open>null\<close>: no fallback
  object and no exception. \<^verbatim>\<open>loadWorkflow\<close> differs: when the handler of its inner \<^verbatim>\<open>try\<close>
  throws, it returns the hardcoded definition for the name.
\<close>

theorem loadConfig_fails_closed:
  "(file_branch E configName runtimeValues h = (Inl fetchError, h1) \<and>
    default_branch runtimeValues fetchError h1 = (Inl error, h2) \<longrightarrow>
      loadConfig E configName runtimeValues h = (Inr Null, h2)) \<and>
   (workflow_file E workflowName h = (Inl fetchError', h1') \<and>
    workflow_fallbacks E workflowName fetchError' h1' = (Inl error', h2') \<longrightarrow>
      loadWorkflow E workflowName h = (Inr (getFallbackWorkflow workflowName), h2'))"
proof (intro conjI impI)
  assume a: "file_branch E configName runtimeValues h = (Inl fetchError, h1) \<and>
    default_branch runtimeValues fetchError h1 = (Inl error, h2)"
  with raises_errors_default_branch obtain m where m: "error = Error m"
    unfolding raises_errors_def by blast
  from a have "try_catch (file_branch E configName runtimeValues)
      (default_branch runtimeValues) h = (Inl error, h2)"
    by (simp add: try_catch_def)
  with m show "loadConfig E configName runtimeValues h = (Inr Null, h2)"
    by (simp add: loadConfig_def try_catch_def handler_returns returns_def)
next
  assume a: "workflow_file E workflowName h = (Inl fetchError', h1') \<and>
    workflow_fallbacks E workflowName fetchError' h1' = (Inl error', h2')"
  with workflow_fallbacks_settles [of E workflowName fetchError' h1']
  obtain m where m: "error' = Error m" by auto
  from a have "try_catch (workflow_file E workflowName)
      (workflow_fallbacks E workflowName) h = (Inl error', h2')"
    by (simp add: try_catch_def)
  with m show "loadWorkflow E workflowName h = (Inr (getFallbackWorkflow workflowName), h2')"
    by (simp add: loadWorkflow_def try_catch_def handler_returns returns_def)
qed

text \<open>
  A rejection whose \<^verbatim>\<open>message\<close> cannot be converted to a string, such as
  \<^verbatim>\<open>{message: {toString: null, valueOf: null}}\<close>: the warning of the inner handler throws,
  so \<^verbatim>\<open>loadConfig\<close> returns \<^verbatim>\<open>null\<close> and \<^verbatim>\<open>loadWorkflow\<close> the hardcoded definition, and the
  embedded table and the default template are not consulted.
\<close>

lemma unprintable_message_fails_closed:
  assumes "fetch E (config_path configName) = Rejects unprintable_rejection"
    and "fetch E (workflow_path workflowName) = Rejects unprintable_rejection"
  shows "loadConfig E configName runtimeValues h = (Inr Null, h)"
    and "loadWorkflow E workflowName h = (Inr (getFallbackWorkflow workflowName), h)"
proof -
  have conversion: "message_text unprintable_rejection = throws TypeError"
    by (simp add: unprintable_rejection_def message_text_def member_def unprintable_def)
  from assms(1) have "file_branch E configName runtimeValues h = (Inl unprintable_rejection, h)"
    by (simp add: file_branch_def fetch_text_run and_then_def)
  then show "loadConfig E configName runtimeValues h = (Inr Null, h)"
    by (simp add: loadConfig_def try_catch_def default_branch_def conversion throws_def
        returns_def)
  from assms(2) have "workflow_file E workflowName h = (Inl unprintable_rejection, h)"
    by (simp add: workflow_file_def fetch_text_run and_then_def)
  then show "loadWorkflow E workflowName h = (Inr (getFallbackWorkflow workflowName), h)"
    by (simp add: loadWorkflow_def try_catch_def workflow_fallbacks_def conversion throws_def
        returns_def)
qed

lemma default_branch_nullish:
  "e = Undefined \<or> e = Null \<Longrightarrow> default_branch rv e = throws TypeError"
  by (auto simp: default_branch_def)

lemma workflow_fallbacks_nullish:
  "e = Undefined \<or> e = Null \<Longrightarrow> workflow_fallbacks E n e = throws TypeError"
  by (auto simp: workflow_fallbacks_def)

theorem loadConfig_fails_closed_witness:
  "file_branch rejecting ''client'' None initial_heap = (Inl Undefined, initial_heap) \<and>
   default_branch None Undefined initial_heap = (Inl TypeError, initial_heap) \<and>
   loadConfig rejecting ''client'' None initial_heap = (Inr Null, initial_heap) \<and>
   workflow_file rejecting ''create-client'' initial_heap = (Inl Undefined, initial_heap) \<and>
   workflow_fallbacks rejecting ''create-client'' Undefined initial_heap =
     (Inl TypeError, initial_heap) \<and>
   loadWorkflow rejecting ''create-client'' initial_heap =
     (Inr (getFallbackWorkflow ''create-client''), initial_heap)"
proof -
  have a: "file_branch rejecting ''client'' None initial_heap = (Inl Undefined, initial_heap)"
    by (simp add: file_branch_def fetch_text_run and_then_def rejecting_def offline_def)
  have b: "default_branch None Undefined initial_heap = (Inl TypeError, initial_heap)"
    by (simp add: default_branch_nullish throws_def)
  have c: "workflow_file rejecting ''create-client'' initial_heap = (Inl Undefined, initial_heap)"
    by (simp add: workflow_file_def fetch_text_run and_then_def rejecting_def offline_def)
  have d: "workflow_fallbacks rejecting ''create-client'' Undefined initial_heap =
     (Inl TypeError, initial_heap)"
    by (simp add: workflow_fallbacks_nullish throws_def)
  from a b c d
    loadConfig_fails_closed [of rejecting "''client''" None initial_heap Undefined initial_heap
      TypeError initial_heap "''create-client''" Undefined initial_heap TypeError initial_heap]
  show ?thesis by simp
qed

subsection \<open>A malformed file is an unavailable file\<close>

lemma yaml_texts_nonempty: "create_client_yaml \<noteq> []" "create_aid_yaml \<noteq> []"
  by (simp_all add: create_aid_yaml_def create_client_yaml_def)

lemma default_branch_any_error:
  assumes "plain_failure e" "plain_failure e'"
  shows "default_branch rv e = default_branch rv e'"
  using assms by (simp add: default_branch_def message_text_plain)

lemma workflow_fallbacks_any_error:
  assumes "plain_failure e" "plain_failure e'"
  shows "workflow_fallbacks E n e = workflow_fallbacks E n e'"
  using assms by (simp add: workflow_fallbacks_def message_text_plain)

lemma workflow_fallbacks_fetch:
  "workflow_fallbacks (E\<lparr>fetch := f\<rparr>) n e = workflow_fallbacks E n e"
  by (simp add: workflow_fallbacks_def storage_tier_def cong: if_cong)

lemma unavailable_fetch_text:
  assumes "unavailable (fetch E path)"
  shows "\<exists>e. plain_failure e \<and> fetch_text E path what h = (Inl e, h)"
  using assms by (cases "fetch E path") (simp_all add: fetch_text_run)

lemma file_branch_unavailable:
  assumes "unavailable (fetch E (config_path n))"
  shows "\<exists>e. plain_failure e \<and> file_branch E n rv h = (Inl e, h)"
proof -
  from unavailable_fetch_text [OF assms] obtain e where
    "plain_failure e" "fetch_text E (config_path n) ''config'' h = (Inl e, h)" by blast
  then show ?thesis by (auto simp: file_branch_def and_then_def)
qed

lemma workflow_file_unavailable:
  assumes "unavailable (fetch E (workflow_path n))"
  shows "\<exists>e. plain_failure e \<and> workflow_file E n h = (Inl e, h)"
proof -
  from unavailable_fetch_text [OF assms] obtain e where
    "plain_failure e" "fetch_text E (workflow_path n) ''workflow'' h = (Inl e, h)" by blast
  then show ?thesis by (auto simp: workflow_file_def and_then_def)
qed

lemma file_branch_malformed:
  assumes "fetch E (config_path n) = Body text" "JSON_parse E text = Inl m"
  shows "file_branch E n rv h = (Inl (Error m), h)"
  using assms by (simp add: file_branch_def and_then_def fetch_text_run parsed_run)

lemma workflow_file_malformed:
  assumes "fetch E (workflow_path n) = Body text" "yaml_load E (Str text) = Inl m"
  shows "workflow_file E n h = (Inl (Error m), h)"
  using assms by (simp add: workflow_file_def and_then_def fetch_text_run parsed_run)

lemma loadConfig_unavailable:
  assumes "unavailable (fetch E (config_path n))"
  shows "loadConfig E n rv h =
         try_catch (default_branch rv (Error m))
           (\<lambda>error. and_then (message_text error) (\<lambda>logged. returns Null)) h"
proof -
  from file_branch_unavailable [OF assms] obtain e where
    e: "plain_failure e" "file_branch E n rv h = (Inl e, h)" by blast
  then have "default_branch rv e = default_branch rv (Error m)"
    by (intro default_branch_any_error) simp_all
  with e show ?thesis by (simp add: loadConfig_def try_catch_def)
qed

lemma loadConfig_malformed:
  assumes "fetch E (config_path n) = Body text" "JSON_parse E text = Inl m"
  shows "loadConfig E n rv h =
         try_catch (default_branch rv (Error m))
           (\<lambda>error. and_then (message_text error) (\<lambda>logged. returns Null)) h"
  using file_branch_malformed [OF assms] by (simp add: loadConfig_def try_catch_def)

lemma loadWorkflow_unavailable:
  assumes "unavailable (fetch E (workflow_path n))"
  shows "loadWorkflow E n h =
         try_catch (workflow_fallbacks E n (Error m))
           (\<lambda>error. and_then (message_text error) (\<lambda>logged.
              returns (getFallbackWorkflow n))) h"
proof -
  from workflow_file_unavailable [OF assms] obtain e where
    e: "plain_failure e" "workflow_file E n h = (Inl e, h)" by blast
  then have "workflow_fallbacks E n e = workflow_fallbacks E n (Error m)"
    by (intro workflow_fallbacks_any_error) simp_all
  with e show ?thesis by (simp add: loadWorkflow_def try_catch_def)
qed

lemma loadWorkflow_malformed:
  assumes "fetch E (workflow_path n) = Body text" "yaml_load E (Str text) = Inl m"
  shows "loadWorkflow E n h =
         try_catch (workflow_fallbacks E n (Error m))
           (\<lambda>error. and_then (message_text error) (\<lambda>logged.
              returns (getFallbackWorkflow n))) h"
  using workflow_file_malformed [OF assms] by (simp add: loadWorkflow_def try_catch_def)

lemma agent_entry_run:
  "agent_entry old rv h = (Inr (Obj (literal [] (spread h old @
      [(''url'', agentUrl rv), (''boot_url'', bootUrl rv), (''passcode'', passcode rv)] @
      bran_props rv))), h)"
  by (simp add: agent_entry_def own_props_def and_then_def returns_def)

lemma inject_passcode_run:
  "inject_passcode (Obj default_props) rv h =
     (Inr (Obj default_props),
      if truthy (passcode rv)
      then h(SECRETS := put (h SECRETS) ''browser_extension'' (passcode rv)) else h)"
  by (simp add: inject_passcode_def default_props_def assign_in_secrets assigned_def returns_def)

lemma update_agent_run:
  assumes "member (h AGENTS) ''browser_extension'' = Obj old"
  shows "update_agent ''browser_extension'' (Obj default_props) rv h =
     (Inr (Obj default_props),
      h(AGENTS := put (h AGENTS) ''browser_extension''
          (Obj (literal [] (old @
             [(''url'', agentUrl rv), (''boot_url'', bootUrl rv), (''passcode'', passcode rv)] @
             bran_props rv)))))"
  using assms
  by (simp add: update_agent_def default_props_def and_then_def returns_def agent_entry_run
      assign_in_agents assigned_def)

lemma store_top_level_run:
  "store_top_level (Obj default_props) rv h =
     (Inr (Obj (default_props @
        [(''agentUrl'', agentUrl rv), (''bootUrl'', bootUrl rv)] @ bran_props rv)), h)"
  by (simp add: store_top_level_def default_props_def and_then_def returns_def assigned_def
      bran_props_def)

lemma add_identifier_default_run:
  "\<exists>ids. add_identifier_default (Obj (default_props @
        [(''agentUrl'', agentUrl rv), (''bootUrl'', bootUrl rv)] @ bran_props rv)) rv h =
     (Inr (Obj ([(''secrets'', Ref SECRETS), (''agents'', Ref AGENTS), (''identifiers'', ids),
                 (''users'', Ref USERS), (''credentials'', Ref CREDENTIALS),
                 (''agentUrl'', agentUrl rv), (''bootUrl'', bootUrl rv)] @ bran_props rv)), h) \<and>
     ids = (case aidName rv of
              None \<Rightarrow> Ref IDENTIFIERS
            | Some name \<Rightarrow>
                if name = [] then Ref IDENTIFIERS
                else Obj (literal [] (h IDENTIFIERS @ [(name, aid_entry name)])))"
  by (simp add: add_identifier_default_def default_props_def and_then_def returns_def
      own_props_def assigned_def split: option.splits)

lemma update_agent_default_total:
  "\<exists>h'. update_agent ''browser_extension'' (Obj default_props) rv h =
          (Inr (Obj default_props), h')"
  by (simp add: update_agent_def default_props_def and_then_def returns_def agent_entry_run
      assign_in_agents)

lemma default_branch_total:
  assumes "plain_failure e"
  shows "\<exists>config h'. default_branch runtimeValues e h = (Inr config, h') \<and>
           read_path h' config [''secrets''] = Inr (Ref SECRETS) \<and>
           read_path h' config [''agents''] = Inr (Ref AGENTS)"
proof (cases runtimeValues)
  case None
  with assms show ?thesis
    by (simp add: default_branch_def message_text_plain default_copy returns_def)
next
  case (Some rv)
  obtain h1 where step1: "inject_passcode (Obj default_props) rv h = (Inr (Obj default_props), h1)"
    by (simp add: inject_passcode_run)
  from update_agent_default_total [of rv h1] obtain h2 where
    step2: "update_agent ''browser_extension'' (Obj default_props) rv h1 =
      (Inr (Obj default_props), h2)" ..
  define top where "top = Obj (default_props @
        [(''agentUrl'', agentUrl rv), (''bootUrl'', bootUrl rv)] @ bran_props rv)"
  have step3: "store_top_level (Obj default_props) rv h2 = (Inr top, h2)"
    unfolding top_def by (rule store_top_level_run)
  from add_identifier_default_run [of rv h2] obtain ids where
    step4: "add_identifier_default top rv h2 =
     (Inr (Obj ([(''secrets'', Ref SECRETS), (''agents'', Ref AGENTS), (''identifiers'', ids),
                 (''users'', Ref USERS), (''credentials'', Ref CREDENTIALS),
                 (''agentUrl'', agentUrl rv), (''bootUrl'', bootUrl rv)] @ bran_props rv)), h2)"
    unfolding top_def by blast
  have "default_branch (Some rv) e h =
      and_then (inject_passcode (Obj default_props) rv) (\<lambda>config.
      and_then (update_agent ''browser_extension'' config rv) (\<lambda>config.
      and_then (store_top_level config rv) (\<lambda>config.
        add_identifier_default config rv))) h"
    using assms by (simp add: default_branch_def message_text_plain default_copy default_props_def)
  also have "\<dots> = add_identifier_default top rv h2"
    by (simp add: and_then_def step1 step2 step3)
  finally show ?thesis
    using Some by (simp add: step4 returns_def)
qed

text \<open>
  C8: a bundled resource that arrives but does not parse is handled as one that could not
  be fetched, when the fetch failure is one whose logging cannot throw (\<open>unavailable\<close>). For
  a config whose JSON is malformed, \<^verbatim>\<open>loadConfig\<close> returns: its result is the config that the
  default-template branch builds, an object whose \<^verbatim>\<open>secrets\<close> and \<^verbatim>\<open>agents\<close> are those of the
  template, and the call has the same result and leaves the same template when the file is
  unavailable instead. For a workflow whose YAML is malformed, \<^verbatim>\<open>loadWorkflow\<close> returns and
  leaves the template alone: its result is what the handler of the inner \<^verbatim>\<open>try\<close> (embedded
  table, storage, hardcoded definitions) returns, or the hardcoded definition for the name
  when that handler throws, and the call has the same result when the file is unavailable
  instead.
\<close>

theorem malformed_file_as_unavailable:
  assumes "unavailable outcome"
  shows "(fetch E (config_path configName) = Body configText \<and> JSON_parse E configText = Inl m \<longrightarrow>
            (\<exists>config h'.
               loadConfig E configName runtimeValues h = (Inr config, h') \<and>
               loadConfig (E\<lparr>fetch := \<lambda>path. outcome\<rparr>) configName runtimeValues h =
                 (Inr config, h') \<and>
               default_branch runtimeValues (Error m) h = (Inr config, h') \<and>
               read_path h' config [''secrets''] = Inr (Ref SECRETS) \<and>
               read_path h' config [''agents''] = Inr (Ref AGENTS))) \<and>
         (fetch E (workflow_path workflowName) = Body yamlText \<and> yaml_load E (Str yamlText) = Inl m' \<longrightarrow>
            (\<exists>v.
               loadWorkflow E workflowName h = (Inr v, h) \<and>
               loadWorkflow (E\<lparr>fetch := \<lambda>path. outcome\<rparr>) workflowName h = (Inr v, h) \<and>
               (workflow_fallbacks E workflowName (Error m') h = (Inr v, h) \<or>
                (\<exists>e. workflow_fallbacks E workflowName (Error m') h = (Inl e, h)) \<and>
                v = getFallbackWorkflow workflowName)))"
proof (intro conjI impI)
  let ?E' = "E\<lparr>fetch := \<lambda>path. outcome\<rparr>"
  let ?handler = "\<lambda>error. and_then (message_text error) (\<lambda>logged. returns Null)"
  assume "fetch E (config_path configName) = Body configText \<and> JSON_parse E configText = Inl m"
  then have a: "loadConfig E configName runtimeValues h =
         try_catch (default_branch runtimeValues (Error m)) ?handler h"
    using loadConfig_malformed by blast
  have b: "loadConfig ?E' configName runtimeValues h =
         try_catch (default_branch runtimeValues (Error m)) ?handler h"
    using assms by (intro loadConfig_unavailable) simp
  from default_branch_total [of "Error m" runtimeValues h] obtain config h' where
    c: "default_branch runtimeValues (Error m) h = (Inr config, h')"
      "read_path h' config [''secrets''] = Inr (Ref SECRETS)"
      "read_path h' config [''agents''] = Inr (Ref AGENTS)"
    by auto
  from c(1) have "try_catch (default_branch runtimeValues (Error m)) ?handler h = (Inr config, h')"
    by (simp add: try_catch_def)
  with a b c show "\<exists>config h'.
               loadConfig E configName runtimeValues h = (Inr config, h') \<and>
               loadConfig ?E' configName runtimeValues h = (Inr config, h') \<and>
               default_branch runtimeValues (Error m) h = (Inr config, h') \<and>
               read_path h' config [''secrets''] = Inr (Ref SECRETS) \<and>
               read_path h' config [''agents''] = Inr (Ref AGENTS)"
    by simp
next
  let ?E' = "E\<lparr>fetch := \<lambda>path. outcome\<rparr>"
  let ?handler = "\<lambda>error. and_then (message_text error) (\<lambda>logged.
              returns (getFallbackWorkflow workflowName))"
  let ?next = "workflow_fallbacks E workflowName (Error m')"
  assume "fetch E (workflow_path workflowName) = Body yamlText \<and> yaml_load E (Str yamlText) = Inl m'"
  then have a: "loadWorkflow E workflowName h = try_catch ?next ?handler h"
    using loadWorkflow_malformed by blast
  have "loadWorkflow ?E' workflowName h =
         try_catch (workflow_fallbacks ?E' workflowName (Error m')) ?handler h"
    using assms by (intro loadWorkflow_unavailable) simp
  then have b: "loadWorkflow ?E' workflowName h = try_catch ?next ?handler h"
    by (simp add: workflow_fallbacks_fetch)
  from workflow_fallbacks_settles [of E workflowName "Error m'" h] obtain r where
    r: "?next h = (r, h)"
      "case r of Inl e \<Rightarrow> (\<exists>m. e = Error m) | Inr v \<Rightarrow> settled E workflowName v"
    by blast
  show "\<exists>v. loadWorkflow E workflowName h = (Inr v, h) \<and>
            loadWorkflow ?E' workflowName h = (Inr v, h) \<and>
            (?next h = (Inr v, h) \<or>
             (\<exists>e. ?next h = (Inl e, h)) \<and> v = getFallbackWorkflow workflowName)"
  proof (cases r)
    case (Inl e)
    with r obtain msg where "e = Error msg" by auto
    with r(1) Inl have "try_catch ?next ?handler h = (Inr (getFallbackWorkflow workflowName), h)"
      by (simp add: try_catch_def returns_def)
    with a b r(1) Inl show ?thesis by simp
  next
    case (Inr v)
    with r(1) have "try_catch ?next ?handler h = (Inr v, h)"
      by (simp add: try_catch_def)
    with a b r(1) Inr show ?thesis by simp
  qed
qed

theorem malformed_file_as_unavailable_witness:
  "unavailable (Not_ok 404) \<and>
   fetch malformed (config_path ''client'') = Body ''{'' \<and>
   JSON_parse malformed ''{'' = Inl ''SyntaxError'' \<and>
   (\<exists>config h'.
      loadConfig malformed ''client'' (Some overlay_UBPBR) initial_heap = (Inr config, h') \<and>
      loadConfig (malformed\<lparr>fetch := \<lambda>path. Not_ok 404\<rparr>) ''client'' (Some overlay_UBPBR)
        initial_heap = (Inr config, h') \<and>
      default_branch (Some overlay_UBPBR) (Error ''SyntaxError'') initial_heap = (Inr config, h') \<and>
      read_path h' config [''secrets''] = Inr (Ref SECRETS) \<and>
      read_path h' config [''agents''] = Inr (Ref AGENTS)) \<and>
   fetch malformed (workflow_path ''create-client'') = Body ''{'' \<and>
   yaml_load malformed (Str ''{'') = Inl ''YAMLException'' \<and>
   workflow_fallbacks malformed ''create-client'' (Error ''YAMLException'') initial_heap =
     (Inr create_client_parsed, initial_heap) \<and>
   loadWorkflow malformed ''create-client'' initial_heap =
     (Inr create_client_parsed, initial_heap) \<and>
   loadWorkflow (malformed\<lparr>fetch := \<lambda>path. Not_ok 404\<rparr>) ''create-client'' initial_heap =
     (Inr create_client_parsed, initial_heap)"
proof -
  have a: "unavailable (Not_ok 404)" by simp
  have b: "fetch malformed (config_path ''client'') = Body ''{''"
    "JSON_parse malformed ''{'' = Inl ''SyntaxError''"
    "fetch malformed (workflow_path ''create-client'') = Body ''{''"
    by (simp_all add: malformed_def offline_def)
  have c: "yaml_load malformed (Str ''{'') = Inl ''YAMLException''"
    by (simp add: malformed_def offline_def js_yaml_example_def create_client_yaml_def
        create_aid_yaml_def)
  have "yaml_load malformed (Str create_client_yaml) = Inr create_client_parsed"
    by (simp add: malformed_def offline_def js_yaml_example_def)
  then have d: "workflow_fallbacks malformed ''create-client'' (Error ''YAMLException'')
     initial_heap = (Inr create_client_parsed, initial_heap)"
    using yaml_texts_nonempty
    by (simp add: workflow_fallbacks_def EMBEDDED_WORKFLOWS_def and_then_def returns_def
        parsed_run)
  from a b c d
    malformed_file_as_unavailable [OF a, of malformed "''client''" "''{''" "''SyntaxError''"
      "Some overlay_UBPBR" initial_heap "''create-client''" "''{''" "''YAMLException''"]
  show ?thesis by simp
qed


subsection \<open>An empty bran\<close>

lemma agent_entry_empty_bran:
  "agent_entry old (rv\<lparr>bran := Str ''''\<rparr>) = agent_entry old (rv\<lparr>bran := Undefined\<rparr>)"
  by (simp add: agent_entry_def bran_props_def)

lemma update_agent_empty_bran:
  "update_agent key config (rv\<lparr>bran := Str ''''\<rparr>) =
   update_agent key config (rv\<lparr>bran := Undefined\<rparr>)"
  by (simp add: update_agent_def agent_entry_empty_bran cong: if_cong)

lemma store_top_level_empty_bran:
  "store_top_level config (rv\<lparr>bran := Str ''''\<rparr>) =
   store_top_level config (rv\<lparr>bran := Undefined\<rparr>)"
  by (simp add: store_top_level_def)

lemma file_branch_empty_bran:
  "file_branch E n (Some (rv\<lparr>bran := Str ''''\<rparr>)) =
   file_branch E n (Some (rv\<lparr>bran := Undefined\<rparr>))"
  by (simp add: file_branch_def add_identifier_loaded_def
      update_agent_empty_bran store_top_level_empty_bran)

lemma default_branch_empty_bran:
  "default_branch (Some (rv\<lparr>bran := Str ''''\<rparr>)) =
   default_branch (Some (rv\<lparr>bran := Undefined\<rparr>))"
  by (rule ext, simp add: default_branch_def add_identifier_default_def inject_passcode_def
      update_agent_empty_bran store_top_level_empty_bran cong: if_cong)

lemma loadConfig_empty_bran:
  "loadConfig E n (Some (rv\<lparr>bran := Str ''''\<rparr>)) =
   loadConfig E n (Some (rv\<lparr>bran := Undefined\<rparr>))"
  by (simp add: loadConfig_def file_branch_empty_bran default_branch_empty_bran)

lemma has_key_assigned_other: "k \<noteq> k' \<Longrightarrow> has_key (assigned ps k v) k' = has_key ps k'"
  by (simp add: assigned_def has_key_put)

lemma agent_entry_keeps_bran:
  assumes "\<not> truthy (bran rv)" and "agent_entry old rv h = (Inr (Obj ps), h')"
  shows "has_key ps ''bran'' = has_key (spread h old) ''bran''"
proof -
  from assms have "ps = literal [] (spread h old @
      [(''url'', agentUrl rv), (''boot_url'', bootUrl rv), (''passcode'', passcode rv)])"
    by (auto simp: agent_entry_def own_props_def and_then_def returns_def bran_props_def)
  then show ?thesis by (simp add: has_key_literal has_key_append)
qed

lemma assign_has_own_other:
  assumes "assign x k v h = (Inr x', h')" and "k \<noteq> k'"
  shows "has_own h' x' k' = has_own h x k'"
  using assms by (cases x) (auto simp: returns_def throws_def has_key_assigned_other)

lemma store_top_level_keeps_bran:
  assumes "\<not> truthy (bran rv)" and "store_top_level config rv h = (Inr config', h')"
  shows "has_own h' config' ''bran'' = has_own h config ''bran''"
proof -
  from assms obtain c1 h1 where
    a: "assign config ''agentUrl'' (agentUrl rv) h = (Inr c1, h1)" and
    b: "assign c1 ''bootUrl'' (bootUrl rv) h1 = (Inr config', h')"
    by (auto simp: store_top_level_def and_then_def returns_def split: prod.splits sum.splits)
  from assign_has_own_other [OF a, of "''bran''"] assign_has_own_other [OF b, of "''bran''"]
  show ?thesis by simp
qed

text \<open>
  C10: an overlay whose \<^verbatim>\<open>bran\<close> is the empty string is treated as one without \<^verbatim>\<open>bran\<close>:
  \<^verbatim>\<open>loadConfig\<close> gives the same result in both branches. The agent entry it builds has a
  \<^verbatim>\<open>bran\<close> key only when the entry it copies had one, and the top level of the config has a
  \<^verbatim>\<open>bran\<close> key afterwards only when it had one before.
\<close>

theorem empty_bran_as_absent:
  "loadConfig E configName (Some (rv\<lparr>bran := Str ''''\<rparr>)) h =
   loadConfig E configName (Some (rv\<lparr>bran := Undefined\<rparr>)) h \<and>
   (agent_entry old (rv\<lparr>bran := Str ''''\<rparr>) h = (Inr (Obj ps), h') \<longrightarrow>
      has_key ps ''bran'' = has_key (spread h old) ''bran'') \<and>
   (store_top_level config (rv\<lparr>bran := Str ''''\<rparr>) h = (Inr config', h') \<longrightarrow>
      has_own h' config' ''bran'' = has_own h config ''bran'')"
proof (intro conjI impI)
  show "loadConfig E configName (Some (rv\<lparr>bran := Str ''''\<rparr>)) h =
        loadConfig E configName (Some (rv\<lparr>bran := Undefined\<rparr>)) h"
    by (simp add: loadConfig_empty_bran)
next
  assume "agent_entry old (rv\<lparr>bran := Str ''''\<rparr>) h = (Inr (Obj ps), h')"
  then show "has_key ps ''bran'' = has_key (spread h old) ''bran''"
    by (intro agent_entry_keeps_bran [of "rv\<lparr>bran := Str ''''\<rparr>"]) simp_all
next
  assume "store_top_level config (rv\<lparr>bran := Str ''''\<rparr>) h = (Inr config', h')"
  then show "has_own h' config' ''bran'' = has_own h config ''bran''"
    by (intro store_top_level_keeps_bran [of "rv\<lparr>bran := Str ''''\<rparr>"]) simp_all
qed

subsection \<open>The template keeps its agent entry\<close>

lemma keeps_returns [intro!, simp]: "keeps I (returns x)"
  by (simp add: keeps_def returns_def)

lemma keeps_throws [intro!, simp]: "keeps I (throws e)"
  by (simp add: keeps_def throws_def)

lemma keeps_and_then [intro!]:
  assumes "keeps I m" and "\<And>x. keeps I (f x)"
  shows "keeps I (and_then m f)"
  unfolding keeps_def
proof (intro allI impI)
  fix h r h'
  assume "I h" and run: "and_then m f h = (r, h')"
  obtain r1 h1 where m: "m h = (r1, h1)" by (cases "m h")
  with assms(1) \<open>I h\<close> have h1: "I h1" unfolding keeps_def by blast
  show "I h'"
  proof (cases r1)
    case (Inl e)
    with m run h1 show ?thesis by (simp add: and_then_def)
  next
    case (Inr x)
    with m run have "f x h1 = (r, h')" by (simp add: and_then_def)
    with assms(2) h1 show ?thesis unfolding keeps_def by blast
  qed
qed

lemma keeps_try_catch [intro!]:
  assumes "keeps I m" and "\<And>e. keeps I (f e)"
  shows "keeps I (try_catch m f)"
  unfolding keeps_def
proof (intro allI impI)
  fix h r h'
  assume "I h" and run: "try_catch m f h = (r, h')"
  obtain r1 h1 where m: "m h = (r1, h1)" by (cases "m h")
  with assms(1) \<open>I h\<close> have h1: "I h1" unfolding keeps_def by blast
  show "I h'"
  proof (cases r1)
    case (Inl e)
    with m run have "f e h1 = (r, h')" by (simp add: try_catch_def)
    with assms(2) h1 show ?thesis unfolding keeps_def by blast
  next
    case (Inr x)
    with m run h1 show ?thesis by (simp add: try_catch_def)
  qed
qed

lemma keeps_get_prop [intro!, simp]: "keeps I (get_prop v k)"
  by (cases v) (simp_all add: keeps_def returns_def throws_def)

lemma keeps_to_text [intro!, simp]: "keeps I (to_text v)"
  by (cases v) (simp_all add: keeps_def returns_def throws_def)

lemma keeps_message_text [intro!, simp]: "keeps I (message_text x)"
  unfolding message_text_def by (intro keeps_and_then) simp_all

lemma keeps_own_props [intro!, simp]: "keeps I (own_props v)"
  by (simp add: keeps_def own_props_def)

lemma keeps_if [intro!]: "keeps I a \<Longrightarrow> keeps I b \<Longrightarrow> keeps I (if c then a else b)"
  by simp

lemma keeps_case_option [intro!]:
  "keeps I a \<Longrightarrow> (\<And>x. keeps I (b x)) \<Longrightarrow> keeps I (case v of None \<Rightarrow> a | Some x \<Rightarrow> b x)"
  by (cases v) simp_all

lemma keeps_parsed [intro!, simp]: "keeps I (parsed r)"
  by (cases r) (simp_all add: parsed_def)

lemma keeps_answered [intro!, simp]: "keeps I (answered r)"
  by (cases r) (simp_all add: answered_def)

lemma keeps_fetch_text [intro!, simp]: "keeps I (fetch_text E p w)"
  by (cases "fetch E p") (simp_all add: fetch_text_def)

lemma agent_kept_assigned:
  "is_object (member ps ''browser_extension'') \<Longrightarrow> k \<noteq> ''browser_extension'' \<or> is_object v \<Longrightarrow>
   is_object (member (assigned ps k v) ''browser_extension'')"
  by (cases "k = ''browser_extension''") (simp_all add: member_assigned_other member_assigned_same)

lemma keeps_agent_assign:
  "k \<noteq> ''browser_extension'' \<or> is_object v \<Longrightarrow> keeps template_agent_ok (assign x k v)"
  by (cases x) (auto simp: keeps_def returns_def throws_def template_agent_ok_def
      agent_kept_assigned)

lemma keeps_agent_write_back:
  "a \<noteq> ''browser_extension'' \<Longrightarrow> keeps template_agent_ok (write_back x a t)"
  by (cases t; cases x) (auto simp: write_back_def keeps_def returns_def template_agent_ok_def member_put)

lemma keeps_agent_assign_in:
  "a \<noteq> ''browser_extension'' \<Longrightarrow> k \<noteq> ''browser_extension'' \<or> is_object v \<Longrightarrow>
   keeps template_agent_ok (assign_in x a k v)"
  unfolding assign_in_def
  by (intro keeps_and_then keeps_get_prop keeps_agent_assign keeps_agent_write_back) simp_all

lemma keeps_agent_store_top_level: "keeps template_agent_ok (store_top_level config rv)"
  unfolding store_top_level_def
  by (intro keeps_and_then keeps_if keeps_agent_assign keeps_returns) simp_all

lemma keeps_agent_update_agent: "keeps template_agent_ok (update_agent key config rv)"
proof -
  have entry: "keeps template_agent_ok
      (and_then (agent_entry old rv) (\<lambda>updated. assign_in config ''agents'' key updated))" for old
    unfolding keeps_def
  proof (intro allI impI)
    fix h r h'
    assume ok: "template_agent_ok h"
      and run: "and_then (agent_entry old rv) (\<lambda>updated. assign_in config ''agents'' key updated) h = (r, h')"
    let ?v = "Obj (literal [] (spread h old @
      [(''url'', agentUrl rv), (''boot_url'', bootUrl rv), (''passcode'', passcode rv)] @
      bran_props rv))"
    from run have "assign_in config ''agents'' key ?v h = (r, h')"
      by (simp add: and_then_def agent_entry_run)
    moreover have "keeps template_agent_ok (assign_in config ''agents'' key ?v)"
      by (rule keeps_agent_assign_in) simp_all
    ultimately show "template_agent_ok h'" using ok unfolding keeps_def by blast
  qed
  show ?thesis
    unfolding update_agent_def
    by (intro keeps_and_then keeps_get_prop keeps_if keeps_returns entry)
qed

lemma keeps_agent_add_identifier_loaded:
  "keeps template_agent_ok (add_identifier_loaded config rv)"
  unfolding add_identifier_loaded_def
  by (intro keeps_case_option keeps_if keeps_and_then keeps_get_prop keeps_returns
      keeps_agent_assign_in) (simp_all add: aid_entry_def)

lemma keeps_agent_add_identifier_default:
  "keeps template_agent_ok (add_identifier_default config rv)"
  unfolding add_identifier_default_def
  by (intro keeps_case_option keeps_if keeps_and_then keeps_get_prop keeps_returns
      keeps_own_props keeps_agent_assign) simp_all

lemma keeps_agent_file_branch: "keeps template_agent_ok (file_branch E n rv)"
  unfolding file_branch_def
  by (intro keeps_and_then keeps_fetch_text keeps_parsed keeps_case_option keeps_returns
      keeps_agent_update_agent keeps_agent_store_top_level keeps_agent_add_identifier_loaded)

lemma keeps_agent_secrets:
  "keeps template_agent_ok
     (assign_in (Obj [(''secrets'', Ref SECRETS), (''agents'', Ref AGENTS),
        (''identifiers'', Ref IDENTIFIERS), (''users'', Ref USERS),
        (''credentials'', Ref CREDENTIALS)]) ''secrets'' k v)"
  by (simp add: keeps_def assign_in_secrets template_agent_ok_def)

lemma keeps_agent_default_branch: "keeps template_agent_ok (default_branch rv e)"
  unfolding default_branch_def default_copy inject_passcode_def and_then_returns
  by (intro keeps_and_then keeps_message_text keeps_case_option keeps_returns keeps_if
      keeps_agent_secrets keeps_agent_update_agent keeps_agent_store_top_level
      keeps_agent_add_identifier_default)

lemma keeps_agent_loadConfig: "keeps template_agent_ok (loadConfig E n rv)"
  unfolding loadConfig_def
  by (intro keeps_try_catch keeps_and_then keeps_message_text keeps_returns
      keeps_agent_file_branch keeps_agent_default_branch)

lemma keeps_agent_generate: "keeps template_agent_ok (generatePasscodeAndConfig random)"
  unfolding generatePasscodeAndConfig_def Let_def default_copy and_then_returns
  by (intro keeps_and_then keeps_returns keeps_agent_secrets)

lemma keeps_storage_tier: "keeps I (storage_tier E n)"
  unfolding storage_tier_def
  by (intro keeps_try_catch keeps_and_then keeps_answered keeps_get_prop keeps_to_text keeps_if
      keeps_parsed keeps_returns)

lemma keeps_loadWorkflow: "keeps I (loadWorkflow E n)"
  unfolding loadWorkflow_def workflow_file_def workflow_fallbacks_def
  by (intro keeps_try_catch keeps_and_then keeps_fetch_text keeps_get_prop keeps_message_text
      keeps_if keeps_parsed keeps_returns keeps_storage_tier keeps_case_option)

lemma reachable_agent_ok: "reachable h \<Longrightarrow> template_agent_ok h"
proof (induction rule: reachable.induct)
  case at_load
  show ?case by (simp add: template_agent_ok_def)
next
  case (after_loadConfig h E configName runtimeValues r h')
  with keeps_agent_loadConfig show ?case unfolding keeps_def by blast
next
  case (after_generatePasscodeAndConfig h random p h')
  with keeps_agent_generate show ?case unfolding keeps_def by blast
next
  case (after_loadWorkflow h E workflowName r h')
  with keeps_loadWorkflow show ?case unfolding keeps_def by blast
qed

theorem empty_bran_as_absent_witness:
  "loadConfig offline ''client'' (Some (overlay_UBP\<lparr>bran := Str ''''\<rparr>)) initial_heap =
   loadConfig offline ''client'' (Some (overlay_UBP\<lparr>bran := Undefined\<rparr>)) initial_heap \<and>
   agent_entry (Obj [(''secret'', Str ''browser_extension'')]) (overlay_UBP\<lparr>bran := Str ''''\<rparr>)
     initial_heap =
     (Inr (Obj [(''secret'', Str ''browser_extension''), (''url'', Str ''U''),
                (''boot_url'', Str ''B''), (''passcode'', Str ''P'')]), initial_heap) \<and>
   has_key [(''secret'', Str ''browser_extension''), (''url'', Str ''U''),
            (''boot_url'', Str ''B''), (''passcode'', Str ''P'')] ''bran'' =
   has_key (spread initial_heap (Obj [(''secret'', Str ''browser_extension'')])) ''bran'' \<and>
   store_top_level (Obj []) (overlay_UBP\<lparr>bran := Str ''''\<rparr>) initial_heap =
     (Inr (Obj [(''agentUrl'', Str ''U''), (''bootUrl'', Str ''B'')]), initial_heap) \<and>
   has_own initial_heap (Obj [(''agentUrl'', Str ''U''), (''bootUrl'', Str ''B'')]) ''bran'' =
   has_own initial_heap (Obj []) ''bran''"
proof -
  have a: "agent_entry (Obj [(''secret'', Str ''browser_extension'')])
     (overlay_UBP\<lparr>bran := Str ''''\<rparr>) initial_heap =
     (Inr (Obj [(''secret'', Str ''browser_extension''), (''url'', Str ''U''),
                (''boot_url'', Str ''B''), (''passcode'', Str ''P'')]), initial_heap)"
    by (simp add: agent_entry_run overlay_UBP_def bran_props_def)
  have b: "store_top_level (Obj []) (overlay_UBP\<lparr>bran := Str ''''\<rparr>) initial_heap =
     (Inr (Obj [(''agentUrl'', Str ''U''), (''bootUrl'', Str ''B'')]), initial_heap)"
    by (simp add: store_top_level_def and_then_def returns_def assigned_def overlay_UBP_def)
  from a b
    empty_bran_as_absent [of offline "''client''" overlay_UBP initial_heap
      "Obj [(''secret'', Str ''browser_extension'')]"
      "[(''secret'', Str ''browser_extension''), (''url'', Str ''U''),
        (''boot_url'', Str ''B''), (''passcode'', Str ''P'')]" initial_heap
      "Obj []" "Obj [(''agentUrl'', Str ''U''), (''bootUrl'', Str ''B'')]"]
  show ?thesis by simp
qed


subsection \<open>The default-template branch, step by step\<close>

lemma default_branch_run:
  assumes "plain_failure e"
    and "member (h AGENTS) ''browser_extension'' = Obj old"
  shows "default_branch (Some rv) e h =
     (Inr (Obj ([(''secrets'', Ref SECRETS), (''agents'', Ref AGENTS),
                 (''identifiers'',
                    case aidName rv of
                      None \<Rightarrow> Ref IDENTIFIERS
                    | Some name \<Rightarrow>
                        if name = [] then Ref IDENTIFIERS
                        else Obj (literal [] (h IDENTIFIERS @ [(name, aid_entry name)]))),
                 (''users'', Ref USERS), (''credentials'', Ref CREDENTIALS),
                 (''agentUrl'', agentUrl rv), (''bootUrl'', bootUrl rv)] @ bran_props rv)),
      (if truthy (passcode rv)
       then h(SECRETS := put (h SECRETS) ''browser_extension'' (passcode rv)) else h)
      (AGENTS := put (h AGENTS) ''browser_extension''
          (Obj (literal [] (old @
             [(''url'', agentUrl rv), (''boot_url'', bootUrl rv), (''passcode'', passcode rv)] @
             bran_props rv)))))"
proof -
  define h1 where "h1 = (if truthy (passcode rv)
       then h(SECRETS := put (h SECRETS) ''browser_extension'' (passcode rv)) else h)"
  define entry where "entry = Obj (literal [] (old @
             [(''url'', agentUrl rv), (''boot_url'', bootUrl rv), (''passcode'', passcode rv)] @
             bran_props rv))"
  define h2 where "h2 = h1(AGENTS := put (h1 AGENTS) ''browser_extension'' entry)"
  define top where "top = Obj (default_props @
        [(''agentUrl'', agentUrl rv), (''bootUrl'', bootUrl rv)] @ bran_props rv)"
  have h1: "h1 AGENTS = h AGENTS" "h1 IDENTIFIERS = h IDENTIFIERS"
    by (simp_all add: h1_def)
  have h2: "h2 IDENTIFIERS = h IDENTIFIERS"
    by (simp add: h2_def h1)
  have step1: "inject_passcode (Obj default_props) rv h = (Inr (Obj default_props), h1)"
    unfolding h1_def by (rule inject_passcode_run)
  have "member (h1 AGENTS) ''browser_extension'' = Obj old"
    using assms(2) by (simp add: h1)
  then have step2: "update_agent ''browser_extension'' (Obj default_props) rv h1 =
      (Inr (Obj default_props), h2)"
    unfolding h2_def entry_def by (rule update_agent_run)
  have step3: "store_top_level (Obj default_props) rv h2 = (Inr top, h2)"
    unfolding top_def by (rule store_top_level_run)
  from add_identifier_default_run [of rv h2]
  have step4: "add_identifier_default top rv h2 =
     (Inr (Obj ([(''secrets'', Ref SECRETS), (''agents'', Ref AGENTS),
                 (''identifiers'',
                    case aidName rv of
                      None \<Rightarrow> Ref IDENTIFIERS
                    | Some name \<Rightarrow>
                        if name = [] then Ref IDENTIFIERS
                        else Obj (literal [] (h IDENTIFIERS @ [(name, aid_entry name)]))),
                 (''users'', Ref USERS), (''credentials'', Ref CREDENTIALS),
                 (''agentUrl'', agentUrl rv), (''bootUrl'', bootUrl rv)] @ bran_props rv)), h2)"
    unfolding top_def h2 by blast
  have "default_branch (Some rv) e h =
      and_then (inject_passcode (Obj default_props) rv) (\<lambda>config.
      and_then (update_agent ''browser_extension'' config rv) (\<lambda>config.
      and_then (store_top_level config rv) (\<lambda>config.
        add_identifier_default config rv))) h"
    using assms(1) by (simp add: default_branch_def message_text_plain default_copy default_props_def)
  also have "\<dots> = add_identifier_default top rv h2"
    by (simp add: and_then_def step1 step2 step3)
  also note step4
  finally show ?thesis
    by (simp add: h2_def h1_def entry_def h1 [unfolded h1_def])
qed

lemma lookup_append: "lookup (ps @ qs) k = (if has_key ps k then lookup ps k else lookup qs k)"
  by (induction ps) auto

lemma has_key_rev: "has_key (rev ps) k = has_key ps k"
  by (induction ps) (auto simp: has_key_append)

lemma lookup_literal:
  "lookup (literal acc kvs) k = (if has_key kvs k then lookup (rev kvs) k else lookup acc k)"
  by (induction acc kvs rule: literal.induct)
    (auto simp: lookup_put lookup_append has_key_rev)

lemma member_own: "has_key ps k \<Longrightarrow> member ps k = lookup ps k"
  by (simp add: member_def)

lemma entry_fields:
  "member (literal [] (old @ [(''url'', U), (''boot_url'', B), (''passcode'', P), (''bran'', BR)]))
     ''url'' = U"
  "member (literal [] (old @ [(''url'', U), (''boot_url'', B), (''passcode'', P), (''bran'', BR)]))
     ''boot_url'' = B"
  "member (literal [] (old @ [(''url'', U), (''boot_url'', B), (''passcode'', P), (''bran'', BR)]))
     ''passcode'' = P"
  "member (literal [] (old @ [(''url'', U), (''boot_url'', B), (''passcode'', P), (''bran'', BR)]))
     ''bran'' = BR"
  by (simp_all add: member_own has_key_literal has_key_append lookup_literal lookup_append)

text \<open>
  C3: in every state the module can be in, for every config name, when the bundled file is
  unavailable (the response is not \<^verbatim>\<open>ok\<close>, or the request failed with a value whose logging
  cannot throw) and the overlay carries \<^verbatim>\<open>agentUrl\<close> U, \<^verbatim>\<open>bootUrl\<close> B, a truthy \<^verbatim>\<open>passcode\<close> P
  and a truthy \<^verbatim>\<open>bran\<close> BR (non-empty strings are truthy), \<^verbatim>\<open>loadConfig\<close> returns a config
  whose \<^verbatim>\<open>agents.browser_extension\<close> has \<^verbatim>\<open>url\<close> U, \<^verbatim>\<open>boot_url\<close> B, \<^verbatim>\<open>passcode\<close> P and
  \<^verbatim>\<open>bran\<close> BR, whose \<^verbatim>\<open>secrets.browser_extension\<close> is P, and whose top level has \<^verbatim>\<open>agentUrl\<close>
  U, \<^verbatim>\<open>bootUrl\<close> B and \<^verbatim>\<open>bran\<close> BR.
\<close>

theorem loadConfig_default_overlay:
  assumes "reachable h" and "unavailable (fetch E (config_path configName))"
    and "truthy P" and "truthy BR"
  shows "\<exists>config h'.
           loadConfig E configName
             (Some \<lparr>agentUrl = U, bootUrl = B, passcode = P, bran = BR, aidName = a\<rparr>) h =
             (Inr config, h') \<and>
           read_path h' config [''agents'', ''browser_extension'', ''url''] = Inr U \<and>
           read_path h' config [''agents'', ''browser_extension'', ''boot_url''] = Inr B \<and>
           read_path h' config [''agents'', ''browser_extension'', ''passcode''] = Inr P \<and>
           read_path h' config [''agents'', ''browser_extension'', ''bran''] = Inr BR \<and>
           read_path h' config [''secrets'', ''browser_extension''] = Inr P \<and>
           read_path h' config [''agentUrl''] = Inr U \<and>
           read_path h' config [''bootUrl''] = Inr B \<and>
           read_path h' config [''bran''] = Inr BR"
proof -
  let ?rv = "\<lparr>agentUrl = U, bootUrl = B, passcode = P, bran = BR, aidName = a\<rparr>"
  from assms(1) have "template_agent_ok h" by (rule reachable_agent_ok)
  then obtain old where old: "member (h AGENTS) ''browser_extension'' = Obj old"
    by (cases "member (h AGENTS) ''browser_extension''") (simp_all add: template_agent_ok_def)
  from file_branch_unavailable [OF assms(2)] obtain e where
    e: "plain_failure e" "file_branch E configName (Some ?rv) h = (Inl e, h)" by blast
  note run = default_branch_run [where e = e and h = h and old = old and rv = ?rv, OF e(1) old]
  have "loadConfig E configName (Some ?rv) h = default_branch (Some ?rv) e h"
    using e(2) by (simp add: loadConfig_def try_catch_def run)
  with run assms(3,4) show ?thesis
    by (simp add: bran_props_def returns_def member_put entry_fields)
qed

theorem loadConfig_default_overlay_witness:
  "\<exists>config h'.
     loadConfig offline ''client'' (Some overlay_UBPBR) initial_heap = (Inr config, h') \<and>
     read_path h' config [''agents'', ''browser_extension'', ''url''] = Inr (Str ''U'') \<and>
     read_path h' config [''agents'', ''browser_extension'', ''boot_url''] = Inr (Str ''B'') \<and>
     read_path h' config [''agents'', ''browser_extension'', ''passcode''] = Inr (Str ''P'') \<and>
     read_path h' config [''agents'', ''browser_extension'', ''bran''] = Inr (Str ''BR'') \<and>
     read_path h' config [''secrets'', ''browser_extension''] = Inr (Str ''P'') \<and>
     read_path h' config [''agentUrl''] = Inr (Str ''U'') \<and>
     read_path h' config [''bootUrl''] = Inr (Str ''B'') \<and>
     read_path h' config [''bran''] = Inr (Str ''BR'')"
proof -
  have "unavailable (fetch offline (config_path ''client''))"
    by (simp add: offline_def)
  from loadConfig_default_overlay [OF at_load this, of "Str ''P''" "Str ''BR''" "Str ''U''" "Str ''B''" None]
  show ?thesis by (simp add: overlay_UBPBR_def)
qed

subsection \<open>Calls in sequence\<close>

lemma loadConfig_default_run:
  assumes "unavailable (fetch E (config_path n))"
    and "member (h AGENTS) ''browser_extension'' = Obj old"
  shows "loadConfig E n (Some rv) h =
     (Inr (Obj ([(''secrets'', Ref SECRETS), (''agents'', Ref AGENTS),
                 (''identifiers'',
                    case aidName rv of
                      None \<Rightarrow> Ref IDENTIFIERS
                    | Some name \<Rightarrow>
                        if name = [] then Ref IDENTIFIERS
                        else Obj (literal [] (h IDENTIFIERS @ [(name, aid_entry name)]))),
                 (''users'', Ref USERS), (''credentials'', Ref CREDENTIALS),
                 (''agentUrl'', agentUrl rv), (''bootUrl'', bootUrl rv)] @ bran_props rv)),
      (if truthy (passcode rv)
       then h(SECRETS := put (h SECRETS) ''browser_extension'' (passcode rv)) else h)
      (AGENTS := put (h AGENTS) ''browser_extension''
          (Obj (literal [] (old @
             [(''url'', agentUrl rv), (''boot_url'', bootUrl rv), (''passcode'', passcode rv)] @
             bran_props rv)))))"
proof -
  from file_branch_unavailable [OF assms(1)] obtain e where
    e: "plain_failure e" "file_branch E n (Some rv) h = (Inl e, h)" by blast
  note run = default_branch_run [where e = e and h = h and old = old and rv = rv, OF e(1) assms(2)]
  have "loadConfig E n (Some rv) h = default_branch (Some rv) e h"
    using e(2) by (simp add: loadConfig_def try_catch_def run)
  with run show ?thesis by simp
qed

lemma offline_unavailable [simp]: "unavailable (fetch offline path)"
  by (simp add: offline_def)

lemma after_UBPBR_heap:
  "after_UBPBR SECRETS = [(''browser_extension'', Str ''P'')]"
  "after_UBPBR AGENTS = [(''browser_extension'',
      Obj [(''secret'', Str ''browser_extension''), (''url'', Str ''U''), (''boot_url'', Str ''B''),
           (''passcode'', Str ''P''), (''bran'', Str ''BR'')])]"
  "after_UBPBR IDENTIFIERS = initial_heap IDENTIFIERS"
  unfolding after_UBPBR_def
  by (simp_all add: loadConfig_default_run [where old = "[(''secret'', Str ''browser_extension'')]"]
      overlay_UBPBR_def bran_props_def)

text \<open>
  C1 (the code departs from the claim): the copy \<^verbatim>\<open>{ ...DEFAULT_CLIENT_CONFIG }\<close> shares the
  objects \<^verbatim>\<open>secrets\<close> and \<^verbatim>\<open>agents\<close> with the template. After a first call with the overlay
  \<^verbatim>\<open>{agentUrl: "U", bootUrl: "B", passcode: "P", bran: "BR"}\<close>, a second call with the overlay
  \<^verbatim>\<open>{agentUrl: "U2", bootUrl: "B2"}\<close> returns a config whose \<^verbatim>\<open>secrets.browser_extension\<close> is
  \<^verbatim>\<open>"P"\<close> and whose agent entry has \<^verbatim>\<open>bran\<close> \<^verbatim>\<open>"BR"\<close>, both set by the first overlay only; and
  \<^verbatim>\<open>generatePasscodeAndConfig\<close> writes its passcode into the template's \<^verbatim>\<open>secrets\<close>.
\<close>

theorem template_shared_between_calls:
  "loadConfig offline ''client'' (Some overlay_U2B2) after_UBPBR =
     (Inr (Obj [(''secrets'', Ref SECRETS), (''agents'', Ref AGENTS),
                (''identifiers'', Ref IDENTIFIERS), (''users'', Ref USERS),
                (''credentials'', Ref CREDENTIALS),
                (''agentUrl'', Str ''U2''), (''bootUrl'', Str ''B2'')]),
      after_UBPBR(AGENTS := [(''browser_extension'',
        Obj [(''secret'', Str ''browser_extension''), (''url'', Str ''U2''),
             (''boot_url'', Str ''B2''), (''passcode'', Undefined), (''bran'', Str ''BR'')])])) \<and>
   read_path (snd (loadConfig offline ''client'' (Some overlay_U2B2) after_UBPBR))
     (Obj [(''secrets'', Ref SECRETS), (''agents'', Ref AGENTS),
           (''identifiers'', Ref IDENTIFIERS), (''users'', Ref USERS),
           (''credentials'', Ref CREDENTIALS),
           (''agentUrl'', Str ''U2''), (''bootUrl'', Str ''B2'')])
     [''secrets'', ''browser_extension''] = Inr (Str ''P'') \<and>
   read_path (snd (loadConfig offline ''client'' (Some overlay_U2B2) after_UBPBR))
     (Obj [(''secrets'', Ref SECRETS), (''agents'', Ref AGENTS),
           (''identifiers'', Ref IDENTIFIERS), (''users'', Ref USERS),
           (''credentials'', Ref CREDENTIALS),
           (''agentUrl'', Str ''U2''), (''bootUrl'', Str ''B2'')])
     [''agents'', ''browser_extension'', ''bran''] = Inr (Str ''BR'') \<and>
   initial_heap SECRETS = [(''browser_extension'', Str ''AUTOGENERATED_AT_RUNTIME'')] \<and>
   after_UBPBR SECRETS = [(''browser_extension'', Str ''P'')] \<and>
   snd (generatePasscodeAndConfig random initial_heap) SECRETS =
     [(''browser_extension'', Str (generateRandomPasscode random))]"
  by (simp add: loadConfig_default_run [where old = "[(''secret'', Str ''browser_extension''),
      (''url'', Str ''U''), (''boot_url'', Str ''B''), (''passcode'', Str ''P''), (''bran'', Str ''BR'')]"]
      after_UBPBR_heap overlay_U2B2_def bran_props_def returns_def generate_run)

text \<open>
  C4 (the code departs from the claim): on the template as loaded, an overlay without
  \<^verbatim>\<open>bran\<close> gives a config with no \<^verbatim>\<open>bran\<close> key, at the top level or on the agent entry. After
  an earlier call whose overlay had \<^verbatim>\<open>bran: "BR"\<close>, the same overlay gives a config whose
  agent entry has the key \<^verbatim>\<open>bran\<close>, with the value \<^verbatim>\<open>"BR"\<close>.
\<close>

theorem bran_left_by_earlier_call:
  "loadConfig offline ''client'' (Some overlay_UBP) initial_heap =
     (Inr (Obj [(''secrets'', Ref SECRETS), (''agents'', Ref AGENTS),
                (''identifiers'', Ref IDENTIFIERS), (''users'', Ref USERS),
                (''credentials'', Ref CREDENTIALS),
                (''agentUrl'', Str ''U''), (''bootUrl'', Str ''B'')]),
      initial_heap(SECRETS := [(''browser_extension'', Str ''P'')],
        AGENTS := [(''browser_extension'',
          Obj [(''secret'', Str ''browser_extension''), (''url'', Str ''U''),
               (''boot_url'', Str ''B''), (''passcode'', Str ''P'')])])) \<and>
   loadConfig offline ''client'' (Some overlay_UBP) after_UBPBR =
     (Inr (Obj [(''secrets'', Ref SECRETS), (''agents'', Ref AGENTS),
                (''identifiers'', Ref IDENTIFIERS), (''users'', Ref USERS),
                (''credentials'', Ref CREDENTIALS),
                (''agentUrl'', Str ''U''), (''bootUrl'', Str ''B'')]),
      after_UBPBR(SECRETS := [(''browser_extension'', Str ''P'')],
        AGENTS := [(''browser_extension'',
          Obj [(''secret'', Str ''browser_extension''), (''url'', Str ''U''),
               (''boot_url'', Str ''B''), (''passcode'', Str ''P''), (''bran'', Str ''BR'')])])) \<and>
   has_own (snd (loadConfig offline ''client'' (Some overlay_UBP) after_UBPBR))
     (Obj [(''secret'', Str ''browser_extension''), (''url'', Str ''U''),
           (''boot_url'', Str ''B''), (''passcode'', Str ''P''), (''bran'', Str ''BR'')]) ''bran'' \<and>
   read_path (snd (loadConfig offline ''client'' (Some overlay_UBP) after_UBPBR))
     (Obj [(''secrets'', Ref SECRETS), (''agents'', Ref AGENTS),
           (''identifiers'', Ref IDENTIFIERS), (''users'', Ref USERS),
           (''credentials'', Ref CREDENTIALS),
           (''agentUrl'', Str ''U''), (''bootUrl'', Str ''B'')])
     [''agents'', ''browser_extension'', ''bran''] = Inr (Str ''BR'')"
  by (simp add: loadConfig_default_run [where old = "[(''secret'', Str ''browser_extension''),
      (''url'', Str ''U''), (''boot_url'', Str ''B''), (''passcode'', Str ''P''), (''bran'', Str ''BR'')]"]
      loadConfig_default_run [where old = "[(''secret'', Str ''browser_extension'')]"]
      after_UBPBR_heap overlay_UBP_def bran_props_def returns_def)

text \<open>
  C2 (the code departs from the claim): with no bundled file and the overlay
  \<^verbatim>\<open>{aidName: "aid1"}\<close>, the config returned has the identifier \<^verbatim>\<open>aid1\<close> with the agent
  \<^verbatim>\<open>gleif-agent-1\<close>, while its \<^verbatim>\<open>agents\<close> has the single key \<^verbatim>\<open>browser_extension\<close>: the
  invariant does not hold of it.
\<close>

theorem identifier_names_missing_agent:
  "loadConfig offline ''client'' (Some overlay_aid1) initial_heap =
     (Inr (Obj [(''secrets'', Ref SECRETS), (''agents'', Ref AGENTS),
                (''identifiers'',
                   Obj [(''browser-extension-aid'',
                          Obj [(''agent'', Str ''browser_extension''),
                               (''name'', Str ''browser-extension-aid'')]),
                        (''aid1'',
                          Obj [(''agent'', Str ''gleif-agent-1''), (''name'', Str ''aid1'')])]),
                (''users'', Ref USERS), (''credentials'', Ref CREDENTIALS),
                (''agentUrl'', Undefined), (''bootUrl'', Undefined)]),
      initial_heap(AGENTS := [(''browser_extension'',
          Obj [(''secret'', Str ''browser_extension''), (''url'', Undefined),
               (''boot_url'', Undefined), (''passcode'', Undefined)])])) \<and>
   \<not> agent_refs_ok (snd (loadConfig offline ''client'' (Some overlay_aid1) initial_heap))
       (Obj [(''secrets'', Ref SECRETS), (''agents'', Ref AGENTS),
                (''identifiers'',
                   Obj [(''browser-extension-aid'',
                          Obj [(''agent'', Str ''browser_extension''),
                               (''name'', Str ''browser-extension-aid'')]),
                        (''aid1'',
                          Obj [(''agent'', Str ''gleif-agent-1''), (''name'', Str ''aid1'')])]),
                (''users'', Ref USERS), (''credentials'', Ref CREDENTIALS),
                (''agentUrl'', Undefined), (''bootUrl'', Undefined)]) \<and>
   agent_refs_ok initial_heap DEFAULT_CLIENT_CONFIG"
  by (simp add: loadConfig_default_run [where old = "[(''secret'', Str ''browser_extension'')]"]
      overlay_aid1_def bran_props_def returns_def aid_entry_def agent_refs_ok_def names_agent_def
      DEFAULT_CLIENT_CONFIG_def)

subsection \<open>Workflow lookup without a bundled file\<close>

lemma embedded_entry:
  assumes "workflowName \<in> {''create-client'', ''create-client-workflow'', ''create-aid-workflow''}"
  shows "\<exists>document. document \<noteq> [] \<and> get_prop EMBEDDED_WORKFLOWS workflowName h = (Inr (Str document), h)"
  using assms by (auto simp: EMBEDDED_WORKFLOWS_def returns_def yaml_texts_nonempty)

lemma storage_tier_unavailable:
  "storage_get E (storage_key n) = Inl (Error m) \<Longrightarrow> storage_tier E n h = (Inr None, h)"
  by (simp add: storage_tier_def try_catch_def and_then_def answered_run returns_def)

lemma fallback_unknown:
  assumes "get_prop EMBEDDED_WORKFLOWS n h = (Inr Undefined, h)"
  shows "getFallbackWorkflow n = Null"
proof -
  have "n \<notin> {''create-client'', ''create-client-workflow'', ''create-aid-workflow''}"
  proof
    assume "n \<in> {''create-client'', ''create-client-workflow'', ''create-aid-workflow''}"
    from embedded_entry [OF this, of h] assms show False by auto
  qed
  then show ?thesis by (simp add: getFallbackWorkflow_def)
qed

text \<open>
  C6, as the code has it: when the bundled file is unavailable (the response is not \<^verbatim>\<open>ok\<close>,
  or the request failed with a value whose logging cannot throw), a name of the hardcoded set
  (the three names are also the keys of the embedded table) gets what the YAML parser
  makes of the embedded document of that name, and the hardcoded definition only when the
  parser throws on that document; a name for which the embedded table gives \<^verbatim>\<open>undefined\<close>
  and the storage tier gives nothing gets \<^verbatim>\<open>null\<close>.
\<close>

theorem loadWorkflow_without_file:
  assumes "unavailable (fetch E (workflow_path workflowName))"
  shows "(workflowName \<in> {''create-client'', ''create-client-workflow'', ''create-aid-workflow''} \<longrightarrow>
            (\<exists>document. get_prop EMBEDDED_WORKFLOWS workflowName h = (Inr (Str document), h) \<and>
               loadWorkflow E workflowName h =
                 (Inr (case yaml_load E (Str document) of
                         Inr w \<Rightarrow> w
                       | Inl m \<Rightarrow> getFallbackWorkflow workflowName), h))) \<and>
         (get_prop EMBEDDED_WORKFLOWS workflowName h = (Inr Undefined, h) \<and>
          storage_tier E workflowName h = (Inr None, h) \<longrightarrow>
            loadWorkflow E workflowName h = (Inr Null, h))"
proof (intro conjI impI)
  note start = loadWorkflow_unavailable [OF assms, of h "''unavailable''"]
  {
    assume "workflowName \<in> {''create-client'', ''create-client-workflow'', ''create-aid-workflow''}"
    from embedded_entry [OF this, of h] obtain document where
      the_document: "document \<noteq> []" "get_prop EMBEDDED_WORKFLOWS workflowName h = (Inr (Str document), h)"
      by blast
    have "loadWorkflow E workflowName h =
                 (Inr (case yaml_load E (Str document) of
                         Inr w \<Rightarrow> w
                       | Inl m \<Rightarrow> getFallbackWorkflow workflowName), h)"
      using the_document
      by (cases "yaml_load E (Str document)")
        (simp_all add: start workflow_fallbacks_def try_catch_def and_then_def returns_def
          parsed_run)
    with the_document(2) show "\<exists>document. get_prop EMBEDDED_WORKFLOWS workflowName h = (Inr (Str document), h) \<and>
               loadWorkflow E workflowName h =
                 (Inr (case yaml_load E (Str document) of
                         Inr w \<Rightarrow> w
                       | Inl m \<Rightarrow> getFallbackWorkflow workflowName), h)" by blast
  next
    assume a: "get_prop EMBEDDED_WORKFLOWS workflowName h = (Inr Undefined, h) \<and>
          storage_tier E workflowName h = (Inr None, h)"
    then have "getFallbackWorkflow workflowName = Null" by (intro fallback_unknown [of _ h]) simp
    with a show "loadWorkflow E workflowName h = (Inr Null, h)"
      by (simp add: start workflow_fallbacks_def try_catch_def and_then_def returns_def)
  }
qed

theorem loadWorkflow_without_file_witness:
  "unavailable (fetch offline (workflow_path ''create-client'')) \<and>
   (\<exists>document. get_prop EMBEDDED_WORKFLOWS ''create-client'' initial_heap = (Inr (Str document), initial_heap) \<and>
      loadWorkflow offline ''create-client'' initial_heap =
        (Inr (case yaml_load offline (Str document) of
                Inr w \<Rightarrow> w
              | Inl m \<Rightarrow> getFallbackWorkflow ''create-client''), initial_heap)) \<and>
   unavailable (fetch offline (workflow_path ''other-workflow'')) \<and>
   get_prop EMBEDDED_WORKFLOWS ''other-workflow'' initial_heap = (Inr Undefined, initial_heap) \<and>
   storage_tier offline ''other-workflow'' initial_heap = (Inr None, initial_heap) \<and>
   loadWorkflow offline ''other-workflow'' initial_heap = (Inr Null, initial_heap)"
proof -
  have a: "get_prop EMBEDDED_WORKFLOWS ''other-workflow'' initial_heap = (Inr Undefined, initial_heap)"
    by (simp add: EMBEDDED_WORKFLOWS_def returns_def member_Nil Object_prototype_keys_def)
  have b: "storage_tier offline ''other-workflow'' initial_heap = (Inr None, initial_heap)"
    by (rule storage_tier_unavailable) (simp add: offline_def)
  from a b
    loadWorkflow_without_file [of offline "''create-client''" initial_heap]
    loadWorkflow_without_file [of offline "''other-workflow''" initial_heap]
  show ?thesis by simp
qed

text \<open>
  C6 as stated fails: with no bundled file and no storage, \<^verbatim>\<open>loadWorkflow('create-client')\<close>
  returns the parsed embedded document, whose description has no \<^verbatim>\<open>(FALLBACK)\<close> suffix, and
  not the structure that \<^verbatim>\<open>getFallbackWorkflow\<close> holds for that name.
\<close>

theorem embedded_before_hardcoded_counterexample:
  "unavailable (fetch offline (workflow_path ''create-client'')) \<and>
   storage_get offline (storage_key ''create-client'') = Inl (Error ''storage is not available'') \<and>
   loadWorkflow offline ''create-client'' initial_heap = (Inr create_client_parsed, initial_heap) \<and>
   create_client_parsed \<noteq> getFallbackWorkflow ''create-client''"
proof -
  have "get_prop EMBEDDED_WORKFLOWS ''create-client'' initial_heap =
      (Inr (Str create_client_yaml), initial_heap)"
    by (simp add: EMBEDDED_WORKFLOWS_def returns_def)
  moreover have "yaml_load offline (Str create_client_yaml) = Inr create_client_parsed"
    by (simp add: offline_def js_yaml_example_def)
  ultimately have "loadWorkflow offline ''create-client'' initial_heap =
      (Inr create_client_parsed, initial_heap)"
    using yaml_texts_nonempty
    by (simp add: loadWorkflow_unavailable [where m = "''unavailable''"] workflow_fallbacks_def
        try_catch_def and_then_def returns_def parsed_run)
  moreover have "create_client_parsed \<noteq> getFallbackWorkflow ''create-client''"
    by (simp add: create_client_parsed_def getFallbackWorkflow_def)
  ultimately show ?thesis by (simp add: offline_def)
qed

end
